theory Spec2Isabelle
  imports Main "HOL-Library.AList" "HOL-Library.Char_ord" "HOL-Library.List_Lexorder"
    "HOL-Library.Option_ord"
begin

section \<open>Shared data: bytes, exceptions, the result model\<close>

text \<open>
  A Python \<open>bytes\<close> object is a list of 8-bit characters. A Python \<open>str\<close> that the code
  only stores or passes on (messages, rule identifiers, paths) is a \<open>string\<close> as well;
  the one text the code inspects character by character, the decoded stylesheet, is a
  list of code points (see \<open>detect_xslt_version\<close>).
\<close>

type_synonym bytes = string

text \<open>
  Exceptions are values. \<open>exception\<close> is the instances of \<open>Exception\<close>: the
  classes the code distinguishes in its \<open>except\<close> clauses are constructors of their
  own, \<open>OtherException\<close> is any other subclass. \<open>XMLSyntaxError\<close> carries its
  message and the rendering of its \<open>lineno\<close>.
\<close>

datatype exception =
    XMLSyntaxError string string
  | XSLTParseError string
  | XSLTApplyError string
  | DocumentInvalid string
  | UnicodeDecodeError string
  | TypeError string
  | OtherException string

fun str :: "exception \<Rightarrow> string" where
  "str (XMLSyntaxError m l) = m"
| "str (XSLTParseError m) = m"
| "str (XSLTApplyError m) = m"
| "str (DocumentInvalid m) = m"
| "str (UnicodeDecodeError m) = m"
| "str (TypeError m) = m"
| "str (OtherException m) = m"

text \<open>
  What a coroutine can raise: an instance of \<open>Exception\<close>, or one of the exceptions
  that derive from \<open>BaseException\<close> only. Of these, \<open>CancelledError\<close> stands for
  those a task stores as its outcome (\<open>asyncio.CancelledError\<close>, which a validator
  that awaits can meet, and other direct subclasses of \<open>BaseException\<close>), and
  \<open>KeyboardInterrupt\<close> for the two a task raises again at once
  (\<open>KeyboardInterrupt\<close>, \<open>SystemExit\<close>).
\<close>

datatype raised = Exception exception | CancelledError string | KeyboardInterrupt

subsection \<open>validators/base.py\<close>

datatype Severity = ERROR | WARNING | INFO

fun severity_value :: "Severity \<Rightarrow> string" where
  "severity_value ERROR = ''error''"
| "severity_value WARNING = ''warning''"
| "severity_value INFO = ''info''"

text \<open>
  \<open>ValidationIssue\<close>. The dataclass does not check its field types, and the remote
  validator can store \<open>None\<close> as rule identifier and as message, so both are
  optional here: \<open>None\<close> is Python's \<open>None\<close>.
\<close>

record ValidationIssue =
  severity :: Severity
  rule_id :: "string option"
  message :: "string option"
  location :: "string option"
  source :: "string option"

text \<open>
  One item of the remote service's report, as \<open>zeep.helpers.serialize_object\<close> returns
  it: a dictionary in which a key can be absent, present with the value \<open>None\<close>, or
  present with a string; nested items are under \<open>Item\<close> (absent or \<open>None\<close>: the
  empty list).
\<close>

datatype field = Absent | Null | Text string

text \<open>\<open>item.get(key)\<close> and \<open>item.get(key, default)\<close>.\<close>

definition dict_get :: "field \<Rightarrow> string option" where
  "dict_get f = (case f of Text s \<Rightarrow> Some s | _ \<Rightarrow> None)"

definition dict_get_default :: "field \<Rightarrow> string \<Rightarrow> string option" where
  "dict_get_default f d = (case f of Absent \<Rightarrow> Some d | Null \<Rightarrow> None | Text s \<Rightarrow> Some s)"

datatype report_item = ReportItem
  (errorLevel: field)
  (mostSevereErrorLevel: field)
  (errorID: field)
  (errorText: field)
  (errorLocation: field)
  (Item: "report_item list")

text \<open>
  \<open>ValidationResult\<close>. The field \<open>execution_time_ms\<close> is a wall-clock measurement
  (a float) and is left out of the record; \<open>raw_response\<close> is the remote report's
  \<open>Result\<close> list, the only payload the code ever stores there.
\<close>

record ValidationResult =
  validator_name :: string
  validator_type :: string
  success :: bool
  issues :: "ValidationIssue list"
  raw_response :: "report_item list option"

definition errors :: "ValidationResult \<Rightarrow> ValidationIssue list" where
  "errors r = filter (\<lambda>i. severity i = ERROR) (issues r)"

definition warnings :: "ValidationResult \<Rightarrow> ValidationIssue list" where
  "warnings r = filter (\<lambda>i. severity i = WARNING) (issues r)"

text \<open>
  A validator (\<open>BaseValidator\<close>): its name, its type identifier, whether it is local,
  and its \<open>validate\<close> method. The method runs in a world \<open>'w\<close> (caches, the XSLT
  engine, the remote service) that it may change; it returns a result or raises.
  \<open>'kw\<close> is the keyword arguments the registry passes through unchanged.
\<close>

record ('w, 'kw) BaseValidator =
  name :: string
  type_id :: string
  is_local :: bool
  validate :: "'w \<Rightarrow> bytes \<Rightarrow> 'kw \<Rightarrow> (raised + ValidationResult) \<times> 'w"

section \<open>validators/registry.py\<close>

record MultiValidationResult =
  results :: "ValidationResult list"
  overall_success :: bool
  total_errors :: int
  total_warnings :: int

text \<open>
  The registry's dictionary \<open>_validators\<close>, keyed by type identifier, in insertion
  order. \<open>register\<close> is a dictionary assignment: a known key keeps its position and
  gets the new value, a new key goes last.
\<close>

type_synonym ('w, 'kw) registry = "(string \<times> ('w, 'kw) BaseValidator) list"

definition register :: "('w, 'kw) registry \<Rightarrow> ('w, 'kw) BaseValidator \<Rightarrow> ('w, 'kw) registry" where
  "register reg v = AList.update (type_id v) v reg"

text \<open>
  The selection of \<open>ValidatorRegistry.validate\<close>: a non-empty list selects the
  validators whose type is registered, in the order (and with the repetitions) of the
  list; \<open>None\<close> and the empty list are both falsy and select every validator.
\<close>

definition select_validators ::
  "('w, 'kw) registry \<Rightarrow> string list option \<Rightarrow> ('w, 'kw) BaseValidator list" where
  "select_validators reg validator_types =
     (case validator_types of
        None \<Rightarrow> map snd reg
      | Some ts \<Rightarrow> if ts = [] then map snd reg else List.map_filter (map_of reg) ts)"

text \<open>The synthetic result for an exception of a local validator (lines 120-129).\<close>

definition local_error_result :: "exception \<Rightarrow> ValidationResult" where
  "local_error_result r =
     \<lparr>validator_name = ''Unknown'', validator_type = ''error'', success = False,
      issues = [\<lparr>severity = ERROR, rule_id = Some ''VALIDATOR_ERROR'', message = Some (str r),
                 location = None, source = None\<rparr>],
      raw_response = None\<rparr>"

text \<open>The synthetic result for an exception of an external validator (lines 137-147).\<close>

definition external_error_result :: "('w, 'kw) BaseValidator \<Rightarrow> exception \<Rightarrow> ValidationResult" where
  "external_error_result v e =
     \<lparr>validator_name = name v, validator_type = type_id v, success = False,
      issues = [\<lparr>severity = ERROR, rule_id = Some ''VALIDATOR_ERROR'', message = Some (str e),
                 location = None, source = Some (name v)\<rparr>],
      raw_response = None\<rparr>"

text \<open>
  \<open>asyncio.gather(*local_tasks, return_exceptions=True)\<close>. The validators of the
  repository never await, so their coroutines run one after the other in list order;
  the model runs every validator that way. The outcome of each, a result or the
  exception it raised, is collected in that order; only \<open>KeyboardInterrupt\<close> and
  \<open>SystemExit\<close> are raised again by the task and end the batch there.
\<close>

fun gather ::
  "('w, 'kw) BaseValidator list \<Rightarrow> bytes \<Rightarrow> 'kw \<Rightarrow> 'w
     \<Rightarrow> (raised + (raised + ValidationResult) list) \<times> 'w" where
  "gather [] xml_bytes kw w = (Inr [], w)"
| "gather (v # vs) xml_bytes kw w =
     (case validate v w xml_bytes kw of
        (r, w1) \<Rightarrow>
          if r = Inl KeyboardInterrupt then (Inl KeyboardInterrupt, w1)
          else (case gather vs xml_bytes kw w1 of
                  (Inl e, w2) \<Rightarrow> (Inl e, w2)
                | (Inr rs, w2) \<Rightarrow> (Inr (r # rs), w2)))"

text \<open>
  The loop over \<open>local_results\<close> (lines 115-129): a \<open>ValidationResult\<close> is kept, an
  instance of \<open>Exception\<close> becomes the synthetic result, and there is no \<open>else\<close>:
  any other outcome adds nothing.
\<close>

fun collect_local :: "(raised + ValidationResult) list \<Rightarrow> ValidationResult list" where
  "collect_local [] = []"
| "collect_local (Inr r # rs) = r # collect_local rs"
| "collect_local (Inl (Exception e) # rs) = local_error_result e # collect_local rs"
| "collect_local (Inl b # rs) = collect_local rs"

text \<open>
  The sequential loop over the external validators (lines 132-147). \<open>except Exception\<close>
  turns an instance of \<open>Exception\<close> into the synthetic result; any other exception
  leaves the loop and the batch.
\<close>

fun run_external ::
  "('w, 'kw) BaseValidator list \<Rightarrow> bytes \<Rightarrow> 'kw \<Rightarrow> 'w
     \<Rightarrow> (raised + ValidationResult list) \<times> 'w" where
  "run_external [] xml_bytes kw w = (Inr [], w)"
| "run_external (v # vs) xml_bytes kw w =
     (case validate v w xml_bytes kw of
        (Inl (Exception e), w1) \<Rightarrow>
          (case run_external vs xml_bytes kw w1 of
             (Inl e2, w2) \<Rightarrow> (Inl e2, w2)
           | (Inr rs, w2) \<Rightarrow> (Inr (external_error_result v e # rs), w2))
      | (Inl b, w1) \<Rightarrow> (Inl b, w1)
      | (Inr result, w1) \<Rightarrow>
          (case run_external vs xml_bytes kw w1 of
             (Inl e2, w2) \<Rightarrow> (Inl e2, w2)
           | (Inr rs, w2) \<Rightarrow> (Inr (result # rs), w2)))"

text \<open>The aggregation at the end of \<open>validate\<close> (lines 149-159).\<close>

definition aggregate :: "ValidationResult list \<Rightarrow> MultiValidationResult" where
  "aggregate rs =
     \<lparr>results = rs,
      overall_success = list_all success rs,
      total_errors = sum_list (map (\<lambda>r. int (length (errors r))) rs),
      total_warnings = sum_list (map (\<lambda>r. int (length (warnings r))) rs)\<rparr>"

definition ValidatorRegistry_validate ::
  "('w, 'kw) registry \<Rightarrow> 'w \<Rightarrow> bytes \<Rightarrow> string list option \<Rightarrow> 'kw
     \<Rightarrow> (raised + MultiValidationResult) \<times> 'w" where
  "ValidatorRegistry_validate reg w xml_bytes validator_types kw =
     (let validators = select_validators reg validator_types in
      if validators = [] then
        (Inr \<lparr>results = [], overall_success = False, total_errors = 0, total_warnings = 0\<rparr>, w)
      else
        (let local = filter is_local validators;
             external = filter (\<lambda>v. \<not> is_local v) validators
         in case gather local xml_bytes kw w of
              (Inl e, w1) \<Rightarrow> (Inl e, w1)
            | (Inr local_results, w1) \<Rightarrow>
                (case run_external external xml_bytes kw w1 of
                   (Inl e, w2) \<Rightarrow> (Inl e, w2)
                 | (Inr external_results, w2) \<Rightarrow>
                     (Inr (aggregate (collect_local local_results @ external_results)), w2))))"

text \<open>
  \<open>validate_with_comparison\<close> (lines 166-202): one row per rule identifier, in
  sorted order; in each row a dictionary from validator name to an entry, filled in
  result order, so that a later result with the same name overwrites the entry of an
  earlier one. An entry is \<open>{"found": True, "severity": s, "message": m}\<close> or
  \<open>{"found": False}\<close>.
\<close>

datatype cmp_entry = Found string "string option" | NotFound

fun found :: "cmp_entry \<Rightarrow> bool" where
  "found (Found sev msg) = True"
| "found NotFound = False"

record cmp_row =
  row_rule_id :: "string option"
  row_validators :: "(string \<times> cmp_entry) list"

definition all_rule_ids :: "ValidationResult list \<Rightarrow> string option list" where
  "all_rule_ids rs = concat (map (\<lambda>r. map rule_id (issues r)) rs)"

text \<open>
  \<open>sorted(all_rule_ids)\<close> on the set of rule identifiers. Strings are ordered by code
  point; \<open>None\<close> cannot be compared with a string, so a set that holds \<open>None\<close> and
  something else raises \<open>TypeError\<close>, while the set \<open>{None}\<close> needs no comparison.
\<close>

definition sorted_rule_ids :: "string option list \<Rightarrow> exception + string option list" where
  "sorted_rule_ids ids =
     (if None \<in> set ids \<and> list_ex (\<lambda>i. i \<noteq> None) ids
      then Inl (TypeError ''not supported between instances of NoneType and str'')
      else Inr (sort (remdups ids)))"

definition entry_for :: "string option \<Rightarrow> ValidationResult \<Rightarrow> cmp_entry" where
  "entry_for rid r =
     (case filter (\<lambda>i. rule_id i = rid) (issues r) of
        [] \<Rightarrow> NotFound
      | m # ms \<Rightarrow> Found (severity_value (severity m)) (message m))"

definition build_row :: "ValidationResult list \<Rightarrow> string option \<Rightarrow> cmp_row" where
  "build_row rs rid =
     \<lparr>row_rule_id = rid,
      row_validators =
        foldl (\<lambda>d r. AList.update (validator_name r) (entry_for rid r) d) [] rs\<rparr>"

definition comparison :: "ValidationResult list \<Rightarrow> exception + cmp_row list" where
  "comparison rs =
     (case sorted_rule_ids (all_rule_ids rs) of
        Inl e \<Rightarrow> Inl e
      | Inr ids \<Rightarrow> Inr (map (build_row rs) ids))"

text \<open>
  The method returns \<open>result.to_dict()\<close> extended by the key \<open>comparison\<close>; here
  the pair of the result and the matrix.
\<close>

definition ValidatorRegistry_validate_with_comparison ::
  "('w, 'kw) registry \<Rightarrow> 'w \<Rightarrow> bytes \<Rightarrow> string list \<Rightarrow> 'kw
     \<Rightarrow> (raised + MultiValidationResult \<times> cmp_row list) \<times> 'w" where
  "ValidatorRegistry_validate_with_comparison reg w xml_bytes validator_types kw =
     (case ValidatorRegistry_validate reg w xml_bytes (Some validator_types) kw of
        (Inl e, w1) \<Rightarrow> (Inl e, w1)
      | (Inr result, w1) \<Rightarrow>
          (case comparison (results result) of
             Inl e \<Rightarrow> (Inl (Exception e), w1)
           | Inr cmp \<Rightarrow> (Inr (result, cmp), w1)))"

section \<open>The libraries, as the code sees them\<close>

subsection \<open>lxml and the file system\<close>

text \<open>
  What \<open>_parse_svrl\<close> reads of an SVRL element: the attributes \<open>id\<close>,
  \<open>location\<close> and \<open>flag\<close> (missing: \<open>None\<close>) and the \<open>svrl:text\<close> child
  (no child: \<open>None\<close>; a child without text: \<open>Some None\<close>).
\<close>

record svrl_element =
  attr_id :: "string option"
  attr_location :: "string option"
  attr_flag :: "string option"
  text_el :: "string option option"

record svrl_root =
  failed_asserts :: "svrl_element list"
  successful_reports :: "svrl_element list"

text \<open>An entry of \<open>schema.error_log\<close>; line and column as they are rendered in text.\<close>

record log_entry =
  log_message :: string
  log_line :: string
  log_column :: string

text \<open>
  The functions of \<open>lxml.etree\<close> and \<open>pathlib\<close> the code calls. Parsed elements
  (\<open>'el\<close>), compiled schemas (\<open>'sc\<close>), compiled stylesheets (\<open>'xs\<close>) and result
  trees (\<open>'rt\<close>) are opaque. A call returns its value or the exception it raises.
  Applying a stylesheet (\<open>transform(doc, **params)\<close>) runs in a state \<open>'g\<close> of the
  XSLT engine and its surroundings (random numbers, the clock, node identifiers),
  which it may read and change: the same stylesheet on the same document need not give
  the same tree twice. \<open>tostring\<close> gives \<open>None\<close> for a result tree without a root.
  \<open>parse_XMLSchema\<close> is \<open>ET.XMLSchema(ET.parse(path))\<close>, \<open>parse_XSLT\<close> is
  \<open>ET.XSLT(ET.parse(path))\<close>. \<open>assertValid\<close> returns \<open>None\<close> when the document
  is valid, and otherwise the exception raised together with the schema's
  \<open>error_log\<close> at that moment.
\<close>

record ('el, 'sc, 'xs, 'rt, 'g) ET =
  fromstring :: "bytes \<Rightarrow> exception + 'el"
  tag :: "'el \<Rightarrow> string"
  XSLT :: "'el \<Rightarrow> exception + 'xs"
  apply_xslt :: "'xs \<Rightarrow> 'el \<Rightarrow> (string \<times> string) list \<Rightarrow> 'g \<Rightarrow> (exception + 'rt) \<times> 'g"
  tostring :: "'rt \<Rightarrow> exception + bytes option"
  getroot :: "'rt \<Rightarrow> svrl_root option"
  parse_XMLSchema :: "string \<Rightarrow> exception + 'sc"
  parse_XSLT :: "string \<Rightarrow> exception + 'xs"
  assertValid :: "'sc \<Rightarrow> 'el \<Rightarrow> (exception \<times> log_entry list) option"
  path_exists :: "string \<Rightarrow> bool"

text \<open>
  \<open>str.strip()\<close> and \<open>str.lower()\<close> as the rule-based validator uses them, on
  code points below 256; \<open>lower_char\<close> is exact wherever its result is compared
  with an ASCII word.
\<close>

definition is_space :: "char \<Rightarrow> bool" where
  "is_space c =
     (let n = (of_char c :: nat)
      in (9 \<le> n \<and> n \<le> 13) \<or> (28 \<le> n \<and> n \<le> 32) \<or> n = 133 \<or> n = 160)"

definition lower_char :: "char \<Rightarrow> char" where
  "lower_char c = (let n = (of_char c :: nat) in if 65 \<le> n \<and> n \<le> 90 then char_of (n + 32) else c)"

definition strip :: "string \<Rightarrow> string" where
  "strip s = rev (dropWhile is_space (rev (dropWhile is_space s)))"

definition strip_chars :: "char \<Rightarrow> string \<Rightarrow> string" where
  "strip_chars ch s = rev (dropWhile (\<lambda>c. c = ch) (rev (dropWhile (\<lambda>c. c = ch) s)))"

text \<open>Joining a relative path to a directory; a path is absolute when it starts with a slash.\<close>

definition is_absolute :: "string \<Rightarrow> bool" where
  "is_absolute p = (case p of [] \<Rightarrow> False | c # cs \<Rightarrow> c = CHR ''/'')"

definition resolve_in :: "string \<Rightarrow> string \<Rightarrow> string" where
  "resolve_in dir p = (if is_absolute p then p else dir @ ''/'' @ p)"

text \<open>
  The namespace of the root element, as both local validators compute it:
  \<open>doc.tag.split("}")[0].strip("{") if "}" in doc.tag else None\<close>.
\<close>

definition root_namespace :: "string \<Rightarrow> string option" where
  "root_namespace t =
     (if CHR ''}'' \<in> set t then Some (strip_chars CHR ''{'' (takeWhile (\<lambda>c. c \<noteq> CHR ''}'') t))
      else None)"

subsection \<open>The codec and the tables of \<open>re\<close>\<close>

text \<open>
  A decoded text is a list of code points. What Python does with bytes and code
  points outside ASCII belongs to the interpreter and its Unicode tables, not to the
  repository: \<open>decode_ignore\<close> is \<open>bytes.decode("utf-8", errors="ignore")\<close>;
  \<open>uni_space\<close> and \<open>uni_digit\<close> say which code points from 128 on match \<open>\s\<close> and
  \<open>\d\<close>; \<open>uni_ieq p c\<close> says whether the code point \<open>c\<close> from 128 on matches the
  pattern character \<open>p\<close> under \<open>re.IGNORECASE\<close>. On ASCII the classes are fixed below.
\<close>

record pylib =
  decode_ignore :: "bytes \<Rightarrow> nat list"
  uni_space :: "nat \<Rightarrow> bool"
  uni_digit :: "nat \<Rightarrow> bool"
  uni_ieq :: "char \<Rightarrow> nat \<Rightarrow> bool"

definition re_space :: "pylib \<Rightarrow> nat \<Rightarrow> bool" where
  "re_space lib c =
     (if c < 128 then (9 \<le> c \<and> c \<le> 13) \<or> (28 \<le> c \<and> c \<le> 32) else uni_space lib c)"

definition re_digit :: "pylib \<Rightarrow> nat \<Rightarrow> bool" where
  "re_digit lib c = (if c < 128 then 48 \<le> c \<and> c \<le> 57 else uni_digit lib c)"

text \<open>
  A pattern character (a lower-case letter or a sign) against a code point of the
  text, under \<open>re.IGNORECASE\<close>.
\<close>

definition re_ieq :: "pylib \<Rightarrow> char \<Rightarrow> nat \<Rightarrow> bool" where
  "re_ieq lib p c =
     (if c < 128 then (if 65 \<le> c \<and> c \<le> 90 then c + 32 else c) = of_char p
      else uni_ieq lib p c)"

section \<open>services/transformer.py\<close>

datatype XSLTVersion = V1_0 | V2_0 | V3_0

fun version_value :: "XSLTVersion \<Rightarrow> string" where
  "version_value V1_0 = ''1.0''"
| "version_value V2_0 = ''2.0''"
| "version_value V3_0 = ''3.0''"

record TransformResult =
  tr_success :: bool
  tr_output :: "bytes option"
  error :: "string option"
  xslt_version :: "XSLTVersion option"
  processor :: "string option"

subsection \<open>The regular expression of \<open>detect_xslt_version\<close>\<close>

text \<open>
  \<open><xsl:(?:stylesheet|transform)[^>]+version\s*=\s*["'](\d+\.\d+)["']\<close> with
  \<open>re.IGNORECASE\<close>, searched with \<open>re.search\<close>. The matcher below follows the
  backtracking order of \<open>re\<close>: the leftmost start position wins, and at that
  position the greedy \<open>[^>]+\<close> takes the longest run first. The code points of the
  signs: \<open>>\<close> is 62, \<open>=\<close> is 61, \<open>.\<close> is 46, the quotes are 34 and 39.
\<close>

text \<open>A literal (given in lower case), matched ignoring case; returns the rest.\<close>

fun match_lit :: "pylib \<Rightarrow> string \<Rightarrow> nat list \<Rightarrow> nat list option" where
  "match_lit lib [] s = Some s"
| "match_lit lib (p # ps) [] = None"
| "match_lit lib (p # ps) (c # cs) = (if re_ieq lib p c then match_lit lib ps cs else None)"

definition is_quote :: "nat \<Rightarrow> bool" where
  "is_quote c = (c = 34 \<or> c = 39)"

text \<open>\<open>(\d+\.\d+)["']\<close>: returns group 1.\<close>

definition match_number :: "pylib \<Rightarrow> nat list \<Rightarrow> nat list option" where
  "match_number lib s =
     (let d1 = takeWhile (re_digit lib) s in
      if d1 = [] then None
      else (case dropWhile (re_digit lib) s of
              [] \<Rightarrow> None
            | c # s1 \<Rightarrow>
                if c \<noteq> 46 then None
                else (let d2 = takeWhile (re_digit lib) s1 in
                      if d2 = [] then None
                      else (case dropWhile (re_digit lib) s1 of
                              [] \<Rightarrow> None
                            | q # s2 \<Rightarrow> if is_quote q then Some (d1 @ [46] @ d2) else None))))"

text \<open>\<open>version\s*=\s*["'](\d+\.\d+)["']\<close> at the start of the text.\<close>

definition match_version_attr :: "pylib \<Rightarrow> nat list \<Rightarrow> nat list option" where
  "match_version_attr lib s =
     (case match_lit lib ''version'' s of
        None \<Rightarrow> None
      | Some s1 \<Rightarrow>
          (case dropWhile (re_space lib) s1 of
             [] \<Rightarrow> None
           | e # s2 \<Rightarrow>
               if e \<noteq> 61 then None
               else (case dropWhile (re_space lib) s2 of
                       [] \<Rightarrow> None
                     | q # s3 \<Rightarrow> if is_quote q then match_number lib s3 else None)))"

text \<open>
  \<open>[^>]+\<close> followed by the version attribute: at least one character other than
  \<open>>\<close> is consumed; a longer run is tried before a shorter one.
\<close>

fun match_attrs :: "pylib \<Rightarrow> nat list \<Rightarrow> nat list option" where
  "match_attrs lib [] = None"
| "match_attrs lib (c # cs) =
     (if c = 62 then None
      else (case match_attrs lib cs of Some v \<Rightarrow> Some v | None \<Rightarrow> match_version_attr lib cs))"

text \<open>The whole expression at a fixed start position.\<close>

definition match_decl :: "pylib \<Rightarrow> nat list \<Rightarrow> nat list option" where
  "match_decl lib s =
     (case match_lit lib ''<xsl:'' s of
        None \<Rightarrow> None
      | Some s1 \<Rightarrow>
          (case (case match_lit lib ''stylesheet'' s1 of
                   Some s2 \<Rightarrow> match_attrs lib s2 | None \<Rightarrow> None) of
             Some v \<Rightarrow> Some v
           | None \<Rightarrow> (case match_lit lib ''transform'' s1 of
                         Some s2 \<Rightarrow> match_attrs lib s2 | None \<Rightarrow> None)))"

fun re_search :: "pylib \<Rightarrow> nat list \<Rightarrow> nat list option" where
  "re_search lib [] = match_decl lib []"
| "re_search lib (c # cs) =
     (case match_decl lib (c # cs) of Some v \<Rightarrow> Some v | None \<Rightarrow> re_search lib cs)"

text \<open>
  Lines 87-92: \<open>version.startswith("3")\<close>, then \<open>"2"\<close>, else 1.0; the code
  points of the digits 3 and 2 are 51 and 50.
\<close>

definition version_level :: "nat list \<Rightarrow> XSLTVersion" where
  "version_level version =
     (if take 1 version = [51] then V3_0
      else if take 1 version = [50] then V2_0
      else V1_0)"

definition detect_xslt_version :: "pylib \<Rightarrow> bytes \<Rightarrow> XSLTVersion" where
  "detect_xslt_version lib xslt_content =
     (let content_str = decode_ignore lib xslt_content in
      case re_search lib content_str of
        Some version \<Rightarrow> version_level version
      | None \<Rightarrow> V1_0)"

subsection \<open>\<open>TransformerService.transform\<close>\<close>

text \<open>
  The optional Saxon processor. \<open>SAXON_AVAILABLE\<close> is the module constant set at
  import time. \<open>saxon_run\<close> is the body of the \<open>try\<close> block of
  \<open>_transform_saxon\<close>, run in the engine state: it raises, or
  \<open>transform_to_string\<close> returns \<open>None\<close> (with the processor's error message), or it
  returns the result, encoded as UTF-8.
\<close>

datatype saxon_outcome = SaxonRaised exception | SaxonNone string | SaxonResult bytes

record 'g saxon =
  SAXON_AVAILABLE :: bool
  saxon_run :: "bytes \<Rightarrow> bytes \<Rightarrow> (string \<times> string) list \<Rightarrow> 'g \<Rightarrow> saxon_outcome \<times> 'g"

text \<open>The class attribute \<open>_lxml_cache\<close>: compiled stylesheets by the MD5 of their bytes.\<close>

type_synonym 'xs lxml_cache = "string \<rightharpoonup> 'xs"

text \<open>The \<open>except\<close> clauses of \<open>_transform_lxml\<close>; any other exception propagates.\<close>

fun lxml_handler :: "exception \<Rightarrow> exception + TransformResult" where
  "lxml_handler (XMLSyntaxError m l) =
     Inr \<lparr>tr_success = False, tr_output = None, error = Some (''XML parse error: '' @ m),
          xslt_version = Some V1_0, processor = Some ''lxml''\<rparr>"
| "lxml_handler (XSLTParseError m) =
     Inr \<lparr>tr_success = False, tr_output = None, error = Some (''XSLT parse error: '' @ m),
          xslt_version = Some V1_0, processor = Some ''lxml''\<rparr>"
| "lxml_handler (XSLTApplyError m) =
     Inr \<lparr>tr_success = False, tr_output = None, error = Some (''XSLT transform error: '' @ m),
          xslt_version = Some V1_0, processor = Some ''lxml''\<rparr>"
| "lxml_handler e = Inl e"

text \<open>
  Lines 160-164: the compiled stylesheet for these bytes, from the cache or compiled
  now and stored. An exception leaves the cache as it was.
\<close>

definition cached_xslt ::
  "('el, 'sc, 'xs, 'rt, 'g) ET \<Rightarrow> (bytes \<Rightarrow> string) \<Rightarrow> 'xs lxml_cache \<Rightarrow> bytes
     \<Rightarrow> (exception + 'xs) \<times> 'xs lxml_cache" where
  "cached_xslt et md5 cache xslt_bytes =
     (let cache_key = md5 xslt_bytes in
      case cache cache_key of
        Some t \<Rightarrow> (Inr t, cache)
      | None \<Rightarrow>
          (case fromstring et xslt_bytes of
             Inl e \<Rightarrow> (Inl e, cache)
           | Inr xslt_doc \<Rightarrow>
               (case XSLT et xslt_doc of
                  Inl e \<Rightarrow> (Inl e, cache)
                | Inr t \<Rightarrow> (Inr t, cache(cache_key \<mapsto> t)))))"

definition transform_lxml ::
  "('el, 'sc, 'xs, 'rt, 'g) ET \<Rightarrow> (bytes \<Rightarrow> string) \<Rightarrow> 'xs lxml_cache \<Rightarrow> 'g \<Rightarrow> bytes \<Rightarrow> bytes
     \<Rightarrow> (string \<times> string) list option
     \<Rightarrow> (exception + TransformResult) \<times> 'xs lxml_cache \<times> 'g" where
  "transform_lxml et md5 cache g xml_bytes xslt_bytes parameters =
     (case cached_xslt et md5 cache xslt_bytes of
        (Inl e, cache1) \<Rightarrow> (lxml_handler e, cache1, g)
      | (Inr transform, cache1) \<Rightarrow>
          (case fromstring et xml_bytes of
             Inl e \<Rightarrow> (lxml_handler e, cache1, g)
           | Inr xml_doc \<Rightarrow>
               (case apply_xslt et transform xml_doc
                       (case parameters of None \<Rightarrow> [] | Some ps \<Rightarrow> ps) g of
                  (Inl e, g1) \<Rightarrow> (lxml_handler e, cache1, g1)
                | (Inr result, g1) \<Rightarrow>
                    (case tostring et result of
                       Inl e \<Rightarrow> (lxml_handler e, cache1, g1)
                     | Inr out \<Rightarrow>
                         (Inr \<lparr>tr_success = True, tr_output = out, error = None,
                               xslt_version = Some V1_0, processor = Some ''lxml''\<rparr>,
                          cache1, g1)))))"

definition transform_saxon ::
  "'g saxon \<Rightarrow> 'g \<Rightarrow> bytes \<Rightarrow> bytes \<Rightarrow> XSLTVersion \<Rightarrow> (string \<times> string) list option
     \<Rightarrow> TransformResult \<times> 'g" where
  "transform_saxon sx g xml_bytes xslt_bytes version parameters =
     (if \<not> SAXON_AVAILABLE sx then
        (\<lparr>tr_success = False, tr_output = None, error = Some ''Saxon processor not available'',
          xslt_version = Some version, processor = None\<rparr>, g)
      else
        (case saxon_run sx xml_bytes xslt_bytes
                (case parameters of None \<Rightarrow> [] | Some ps \<Rightarrow> ps) g of
           (SaxonRaised e, g1) \<Rightarrow>
             (\<lparr>tr_success = False, tr_output = None, error = Some (''Saxon error: '' @ str e),
               xslt_version = Some version, processor = Some ''saxon''\<rparr>, g1)
         | (SaxonNone errs, g1) \<Rightarrow>
             (\<lparr>tr_success = False, tr_output = None,
               error = Some (''Saxon transform failed: '' @ errs),
               xslt_version = Some version, processor = Some ''saxon''\<rparr>, g1)
         | (SaxonResult out, g1) \<Rightarrow>
             (\<lparr>tr_success = True, tr_output = Some out, error = None,
               xslt_version = Some version, processor = Some ''saxon''\<rparr>, g1)))"

definition transform ::
  "pylib \<Rightarrow> ('el, 'sc, 'xs, 'rt, 'g) ET \<Rightarrow> (bytes \<Rightarrow> string) \<Rightarrow> 'g saxon \<Rightarrow> 'xs lxml_cache \<Rightarrow> 'g
     \<Rightarrow> bytes \<Rightarrow> bytes \<Rightarrow> XSLTVersion option \<Rightarrow> (string \<times> string) list option
     \<Rightarrow> (exception + TransformResult) \<times> 'xs lxml_cache \<times> 'g" where
  "transform lib et md5 sx cache g xml_bytes xslt_bytes force_version parameters =
     (let version = (case force_version of
                       Some v \<Rightarrow> v | None \<Rightarrow> detect_xslt_version lib xslt_bytes) in
      if version = V1_0 then transform_lxml et md5 cache g xml_bytes xslt_bytes parameters
      else if \<not> SAXON_AVAILABLE sx then
        (Inr \<lparr>tr_success = False, tr_output = None,
              error = Some (''XSLT '' @ version_value version
                            @ '' requires saxonche. Install with: pip install saxonche''),
              xslt_version = Some version, processor = None\<rparr>,
         cache, g)
      else (case transform_saxon sx g xml_bytes xslt_bytes version parameters of
              (r, g1) \<Rightarrow> (Inr r, cache, g1)))"

section \<open>validators/xsd.py\<close>

text \<open>The class attribute \<open>_schema_cache\<close>, keyed by the path as the caller gave it.\<close>

type_synonym 'sc schema_cache = "string \<rightharpoonup> 'sc"

definition SCHEMA_MAP :: "(string \<times> string) list" where
  "SCHEMA_MAP =
     [(''urn:oasis:names:specification:ubl:schema:xsd:Invoice-2'', ''UBL-Invoice-2.1.xsd''),
      (''urn:oasis:names:specification:ubl:schema:xsd:CreditNote-2'', ''UBL-CreditNote-2.1.xsd'')]"

definition xsd_result :: "bool \<Rightarrow> ValidationIssue list \<Rightarrow> ValidationResult" where
  "xsd_result ok iss =
     \<lparr>validator_name = ''XSD Schema'', validator_type = ''xsd'', success = ok, issues = iss,
      raw_response = None\<rparr>"

text \<open>
  \<open>_load_schema\<close>. Everything after the cache lookup runs under
  \<open>except Exception: return None\<close>, so a path that cannot be read and a schema that
  does not compile both give \<open>None\<close>; only a loaded schema is stored.
\<close>

definition XSDValidator_load_schema ::
  "('el, 'sc, 'xs, 'rt, 'g) ET \<Rightarrow> string \<Rightarrow> 'sc schema_cache \<Rightarrow> string
     \<Rightarrow> 'sc option \<times> 'sc schema_cache" where
  "XSDValidator_load_schema et XSD_DIR cache schema_path =
     (case cache schema_path of
        Some schema \<Rightarrow> (Some schema, cache)
      | None \<Rightarrow>
          (let path = resolve_in XSD_DIR schema_path in
           if \<not> path_exists et path then (None, cache)
           else (case parse_XMLSchema et path of
                   Inl e \<Rightarrow> (None, cache)
                 | Inr schema \<Rightarrow> (Some schema, cache(schema_path \<mapsto> schema)))))"

definition XSDValidator_detect_schema ::
  "('el, 'sc, 'xs, 'rt, 'g) ET \<Rightarrow> string \<Rightarrow> 'sc schema_cache \<Rightarrow> 'el
     \<Rightarrow> 'sc option \<times> 'sc schema_cache" where
  "XSDValidator_detect_schema et XSD_DIR cache doc =
     (case root_namespace (tag et doc) of
        None \<Rightarrow> (None, cache)
      | Some ns \<Rightarrow>
          if ns = [] then (None, cache)
          else (case map_of SCHEMA_MAP ns of
                  None \<Rightarrow> (None, cache)
                | Some schema_file \<Rightarrow>
                    if schema_file = [] then (None, cache)
                    else XSDValidator_load_schema et XSD_DIR cache schema_file))"

definition xsd_invalid_issue :: "log_entry \<Rightarrow> ValidationIssue" where
  "xsd_invalid_issue err =
     \<lparr>severity = ERROR, rule_id = Some ''XSD_INVALID'', message = Some (log_message err),
      location = Some (''line '' @ log_line err @ '', column '' @ log_column err),
      source = Some ''XSD Schema''\<rparr>"

text \<open>
  \<open>XSDValidator.validate\<close>, with the arguments \<open>schema_path\<close> (default \<open>None\<close>) and
  \<open>auto_detect\<close> (default \<open>True\<close>). An empty \<open>schema_path\<close> is falsy, like \<open>None\<close>.
\<close>

definition XSDValidator_validate ::
  "('el, 'sc, 'xs, 'rt, 'g) ET \<Rightarrow> string \<Rightarrow> 'sc schema_cache \<Rightarrow> bytes \<Rightarrow> string option \<Rightarrow> bool
     \<Rightarrow> (exception + ValidationResult) \<times> 'sc schema_cache" where
  "XSDValidator_validate et XSD_DIR cache xml_bytes schema_path auto_detect =
     (case fromstring et xml_bytes of
        Inl (XMLSyntaxError m l) \<Rightarrow>
          (Inr (xsd_result False
                  [\<lparr>severity = ERROR, rule_id = Some ''XML_SYNTAX'',
                    message = Some (''XML parsing error: '' @ m),
                    location = Some (''line '' @ l), source = Some ''XSD Schema''\<rparr>]),
           cache)
      | Inl e \<Rightarrow> (Inl e, cache)
      | Inr doc \<Rightarrow>
          (case (if schema_path \<noteq> None \<and> schema_path \<noteq> Some []
                 then XSDValidator_load_schema et XSD_DIR cache (the schema_path)
                 else if auto_detect then XSDValidator_detect_schema et XSD_DIR cache doc
                 else (None, cache)) of
             (None, cache1) \<Rightarrow>
               (Inr (xsd_result True
                       [\<lparr>severity = INFO, rule_id = Some ''XSD_NO_SCHEMA'',
                         message = Some ''XML is well-formed. No XSD schema found for validation.'',
                         location = None, source = Some ''XSD Schema''\<rparr>]),
                cache1)
           | (Some schema, cache1) \<Rightarrow>
               (case assertValid et schema doc of
                  None \<Rightarrow> (Inr (xsd_result True []), cache1)
                | Some (DocumentInvalid m, error_log) \<Rightarrow>
                    (Inr (xsd_result False (map xsd_invalid_issue error_log)), cache1)
                | Some (e, error_log) \<Rightarrow> (Inl e, cache1))))"

section \<open>validators/schematron.py\<close>

text \<open>The class attribute \<open>_xslt_cache\<close>, keyed by the path as the caller gave it.\<close>

type_synonym 'xs xslt_cache = "string \<rightharpoonup> 'xs"

definition SCHEMATRON_MAP :: "(string \<times> string) list" where
  "SCHEMATRON_MAP =
     [(''peppol-bis3'', ''peppol-bis3.xslt''),
      (''en16931-ubl'', ''en16931-ubl.xslt''),
      (''en16931-cii'', ''en16931-cii.xslt'')]"

definition PROFILE_DETECTION :: "(string \<times> string) list" where
  "PROFILE_DETECTION =
     [(''urn:oasis:names:specification:ubl:schema:xsd:Invoice-2'', ''peppol-bis3''),
      (''urn:oasis:names:specification:ubl:schema:xsd:CreditNote-2'', ''peppol-bis3''),
      (''urn:un:unece:uncefact:data:standard:CrossIndustryInvoice:100'', ''en16931-cii'')]"

definition sch_result :: "bool \<Rightarrow> ValidationIssue list \<Rightarrow> ValidationResult" where
  "sch_result ok iss =
     \<lparr>validator_name = ''Schematron'', validator_type = ''schematron'', success = ok,
      issues = iss, raw_response = None\<rparr>"

definition SchematronValidator_load_xslt ::
  "('el, 'sc, 'xs, 'rt, 'g) ET \<Rightarrow> string \<Rightarrow> 'xs xslt_cache \<Rightarrow> string
     \<Rightarrow> 'xs option \<times> 'xs xslt_cache" where
  "SchematronValidator_load_xslt et SCHEMATRON_DIR cache path =
     (case cache path of
        Some xslt \<Rightarrow> (Some xslt, cache)
      | None \<Rightarrow>
          (let p = resolve_in SCHEMATRON_DIR path in
           if \<not> path_exists et p then (None, cache)
           else (case parse_XSLT et p of
                   Inl e \<Rightarrow> (None, cache)
                 | Inr xslt \<Rightarrow> (Some xslt, cache(path \<mapsto> xslt)))))"

definition SchematronValidator_load_profile ::
  "('el, 'sc, 'xs, 'rt, 'g) ET \<Rightarrow> string \<Rightarrow> 'xs xslt_cache \<Rightarrow> string
     \<Rightarrow> 'xs option \<times> 'xs xslt_cache" where
  "SchematronValidator_load_profile et SCHEMATRON_DIR cache profile =
     (case map_of SCHEMATRON_MAP profile of
        None \<Rightarrow> (None, cache)
      | Some xslt_file \<Rightarrow>
          if xslt_file = [] then (None, cache)
          else SchematronValidator_load_xslt et SCHEMATRON_DIR cache xslt_file)"

definition SchematronValidator_detect_profile ::
  "('el, 'sc, 'xs, 'rt, 'g) ET \<Rightarrow> string \<Rightarrow> 'xs xslt_cache \<Rightarrow> 'el
     \<Rightarrow> 'xs option \<times> 'xs xslt_cache" where
  "SchematronValidator_detect_profile et SCHEMATRON_DIR cache doc =
     (case root_namespace (tag et doc) of
        None \<Rightarrow> (None, cache)
      | Some ns \<Rightarrow>
          if ns = [] then (None, cache)
          else (case map_of PROFILE_DETECTION ns of
                  None \<Rightarrow> (None, cache)
                | Some profile \<Rightarrow>
                    if profile = [] then (None, cache)
                    else SchematronValidator_load_profile et SCHEMATRON_DIR cache profile))"

definition flag_severity :: "string \<Rightarrow> Severity" where
  "flag_severity flag =
     (if flag = ''fatal'' \<or> flag = ''error'' then ERROR
      else if flag = ''warning'' then WARNING
      else INFO)"

text \<open>
  One SVRL element to one issue, with the default flag and the default message of
  the loop it comes from.
\<close>

definition svrl_issue :: "string \<Rightarrow> string \<Rightarrow> svrl_element \<Rightarrow> ValidationIssue" where
  "svrl_issue default_flag default_message el =
     \<lparr>severity =
        flag_severity (map lower_char (case attr_flag el of None \<Rightarrow> default_flag | Some f \<Rightarrow> f)),
      rule_id = Some (case attr_id el of None \<Rightarrow> ''UNKNOWN'' | Some i \<Rightarrow> i),
      message =
        Some (case text_el el of
                Some (Some t) \<Rightarrow> if t \<noteq> [] then strip t else default_message
              | _ \<Rightarrow> default_message),
      location = Some (case attr_location el of None \<Rightarrow> [] | Some l \<Rightarrow> l),
      source = Some ''Schematron''\<rparr>"

definition SchematronValidator_parse_svrl ::
  "('el, 'sc, 'xs, 'rt, 'g) ET \<Rightarrow> 'rt \<Rightarrow> ValidationIssue list" where
  "SchematronValidator_parse_svrl et svrl =
     (case getroot et svrl of
        None \<Rightarrow> []
      | Some svrl_root \<Rightarrow>
          map (svrl_issue ''error'' ''Assertion failed'') (failed_asserts svrl_root)
          @ map (svrl_issue ''info'' ''Report'') (successful_reports svrl_root))"

text \<open>
  \<open>SchematronValidator.validate\<close>, with the arguments \<open>schematron\<close> and
  \<open>profile\<close> (both default \<open>None\<close>; an empty string is falsy too). Running the
  compiled rules is a stylesheet application in the engine state \<open>g\<close>.
\<close>

definition SchematronValidator_validate ::
  "('el, 'sc, 'xs, 'rt, 'g) ET \<Rightarrow> string \<Rightarrow> 'xs xslt_cache \<Rightarrow> 'g \<Rightarrow> bytes \<Rightarrow> string option
     \<Rightarrow> string option \<Rightarrow> (exception + ValidationResult) \<times> 'xs xslt_cache \<times> 'g" where
  "SchematronValidator_validate et SCHEMATRON_DIR cache g xml_bytes schematron profile =
     (case fromstring et xml_bytes of
        Inl (XMLSyntaxError m l) \<Rightarrow>
          (Inr (sch_result False
                  [\<lparr>severity = ERROR, rule_id = Some ''XML_SYNTAX'',
                    message = Some (''XML parsing error: '' @ m),
                    location = Some (''line '' @ l), source = Some ''Schematron''\<rparr>]),
           cache, g)
      | Inl e \<Rightarrow> (Inl e, cache, g)
      | Inr doc \<Rightarrow>
          (case (if schematron \<noteq> None \<and> schematron \<noteq> Some []
                 then SchematronValidator_load_xslt et SCHEMATRON_DIR cache (the schematron)
                 else if profile \<noteq> None \<and> profile \<noteq> Some []
                 then SchematronValidator_load_profile et SCHEMATRON_DIR cache (the profile)
                 else SchematronValidator_detect_profile et SCHEMATRON_DIR cache doc) of
             (None, cache1) \<Rightarrow>
               (Inr (sch_result True
                       [\<lparr>severity = INFO, rule_id = Some ''SCH_NO_RULES'',
                         message = Some ''No Schematron rules found for this document type.'',
                         location = None, source = Some ''Schematron''\<rparr>]),
                cache1, g)
           | (Some xslt, cache1) \<Rightarrow>
               (case apply_xslt et xslt doc [] g of
                  (Inl (XSLTApplyError m), g1) \<Rightarrow>
                    (Inr (sch_result False
                            [\<lparr>severity = ERROR, rule_id = Some ''SCH_TRANSFORM_ERROR'',
                              message = Some (''Schematron transform error: '' @ m),
                              location = None, source = Some ''Schematron''\<rparr>]),
                     cache1, g1)
                | (Inl e, g1) \<Rightarrow> (Inl e, cache1, g1)
                | (Inr svrl_result, g1) \<Rightarrow>
                    (let iss = SchematronValidator_parse_svrl et svrl_result
                     in (Inr (sch_result (\<not> list_ex (\<lambda>i. severity i = ERROR) iss) iss),
                         cache1, g1)))))"

section \<open>validators/helger.py\<close>

text \<open>
  The remote validator. \<open>decode\<close> is \<open>xml_bytes.decode("utf-8")\<close>, which raises
  \<open>UnicodeDecodeError\<close> on bytes that are not UTF-8, before the \<open>try\<close>;
  \<open>service\<close> is the SOAP operation \<open>validate(XML, VESID, displayLocale)\<close>: in a state
  \<open>'s\<close> of the remote side it returns the report's \<open>Result\<close> list or raises, and
  leaves a new state. The pacing delay before the call has no result and is not
  modelled.
\<close>

definition VESID_peppol_invoice :: string where
  "VESID_peppol_invoice = ''eu.peppol.bis3:invoice:2025.5''"

definition truthy :: "string option \<Rightarrow> bool" where
  "truthy v = (case v of None \<Rightarrow> False | Some t \<Rightarrow> t \<noteq> [])"

definition HelgerValidator_parse_issue :: "report_item \<Rightarrow> ValidationIssue option" where
  "HelgerValidator_parse_issue item =
     (let level = (if truthy (dict_get (errorLevel item)) then dict_get (errorLevel item)
                   else dict_get (mostSevereErrorLevel item));
          error_id = dict_get_default (errorID item) [];
          text = dict_get_default (errorText item) [];
          location = dict_get_default (errorLocation item) []
      in if \<not> truthy level then None
         else Some
           \<lparr>severity = (if level = Some ''ERROR'' then ERROR
                         else if level = Some ''WARN'' then WARNING else INFO),
            rule_id = error_id,
            message = text,
            location = (if truthy location then location else None),
            source = Some ''Helger WSDVS''\<rparr>)"

definition helger_issues :: "report_item list \<Rightarrow> ValidationIssue list" where
  "helger_issues result =
     concat (map (\<lambda>item.
        if Item item \<noteq> [] then List.map_filter HelgerValidator_parse_issue (Item item)
        else (case HelgerValidator_parse_issue item of None \<Rightarrow> [] | Some i \<Rightarrow> [i])) result)"

definition HelgerValidator_validate ::
  "(bytes \<Rightarrow> exception + string)
     \<Rightarrow> ('s \<Rightarrow> string \<Rightarrow> string \<Rightarrow> string \<Rightarrow> (exception + report_item list) \<times> 's)
     \<Rightarrow> 's \<Rightarrow> bytes \<Rightarrow> string option \<Rightarrow> (exception + ValidationResult) \<times> 's" where
  "HelgerValidator_validate decode service s xml_bytes vesid =
     (let vesid1 = (if truthy vesid then the vesid else VESID_peppol_invoice) in
      case decode xml_bytes of
        Inl e \<Rightarrow> (Inl e, s)
      | Inr xml_string \<Rightarrow>
          (case service s xml_string vesid1 ''en'' of
             (Inl e, s1) \<Rightarrow>
               (Inr \<lparr>validator_name = ''Helger WSDVS'', validator_type = ''helger'',
                     success = False,
                     issues = [\<lparr>severity = ERROR, rule_id = Some ''HELGER_CONNECTION'',
                                message = Some (''Validation service error: '' @ str e),
                                location = None, source = Some ''Helger WSDVS''\<rparr>],
                     raw_response = None\<rparr>,
                s1)
           | (Inr result, s1) \<Rightarrow>
               (let iss = helger_issues result
                in (Inr \<lparr>validator_name = ''Helger WSDVS'', validator_type = ''helger'',
                         success = (length (filter (\<lambda>i. severity i = ERROR) iss) = 0),
                         issues = iss, raw_response = Some result\<rparr>,
                    s1))))"

section \<open>The default registry\<close>

text \<open>
  The keyword arguments that reach the validators, with their defaults, and the
  mutable state they work on: the two class-level caches, the XSLT engine and the
  remote side.
\<close>

record kwargs =
  vesid :: "string option"
  schema_path :: "string option"
  auto_detect :: bool
  schematron :: "string option"
  profile :: "string option"

record ('sc, 'xs, 'g, 's) world =
  schema_cache :: "'sc schema_cache"
  xslt_cache :: "'xs xslt_cache"
  engine :: 'g
  remote :: 's

text \<open>The installation: lxml, the two rule directories, the codec and the remote service.\<close>

record ('el, 'sc, 'xs, 'rt, 'g, 's) installation =
  lxml :: "('el, 'sc, 'xs, 'rt, 'g) ET"
  XSD_DIR :: string
  SCHEMATRON_DIR :: string
  decode_utf8 :: "bytes \<Rightarrow> exception + string"
  wsdvs :: "'s \<Rightarrow> string \<Rightarrow> string \<Rightarrow> string \<Rightarrow> (exception + report_item list) \<times> 's"

text \<open>What a method of one of the three validators raises is an instance of \<open>Exception\<close>.\<close>

definition as_outcome :: "exception + ValidationResult \<Rightarrow> raised + ValidationResult" where
  "as_outcome out = (case out of Inl e \<Rightarrow> Inl (Exception e) | Inr r \<Rightarrow> Inr r)"

definition HelgerValidator ::
  "('el, 'sc, 'xs, 'rt, 'g, 's) installation \<Rightarrow> (('sc, 'xs, 'g, 's) world, kwargs) BaseValidator" where
  "HelgerValidator inst =
     \<lparr>name = ''Helger WSDVS'', type_id = ''helger'', is_local = False,
      validate = (\<lambda>w xml_bytes kw.
        case HelgerValidator_validate (decode_utf8 inst) (wsdvs inst) (remote w) xml_bytes (vesid kw) of
          (out, s) \<Rightarrow> (as_outcome out, w\<lparr>remote := s\<rparr>))\<rparr>"

definition XSDValidator ::
  "('el, 'sc, 'xs, 'rt, 'g, 's) installation \<Rightarrow> (('sc, 'xs, 'g, 's) world, kwargs) BaseValidator" where
  "XSDValidator inst =
     \<lparr>name = ''XSD Schema'', type_id = ''xsd'', is_local = True,
      validate = (\<lambda>w xml_bytes kw.
        case XSDValidator_validate (lxml inst) (XSD_DIR inst) (schema_cache w) xml_bytes
               (schema_path kw) (auto_detect kw) of
          (out, c) \<Rightarrow> (as_outcome out, w\<lparr>schema_cache := c\<rparr>))\<rparr>"

definition SchematronValidator ::
  "('el, 'sc, 'xs, 'rt, 'g, 's) installation \<Rightarrow> (('sc, 'xs, 'g, 's) world, kwargs) BaseValidator" where
  "SchematronValidator inst =
     \<lparr>name = ''Schematron'', type_id = ''schematron'', is_local = True,
      validate = (\<lambda>w xml_bytes kw.
        case SchematronValidator_validate (lxml inst) (SCHEMATRON_DIR inst) (xslt_cache w)
               (engine w) xml_bytes (schematron kw) (profile kw) of
          (out, c, g) \<Rightarrow> (as_outcome out, w\<lparr>xslt_cache := c, engine := g\<rparr>))\<rparr>"

text \<open>\<open>_register_defaults\<close>.\<close>

definition register_defaults ::
  "('el, 'sc, 'xs, 'rt, 'g, 's) installation \<Rightarrow> (('sc, 'xs, 'g, 's) world, kwargs) registry" where
  "register_defaults inst =
     register (register (register [] (HelgerValidator inst)) (XSDValidator inst))
       (SchematronValidator inst)"

section \<open>A small installation for concrete runs\<close>

text \<open>
  Two stylesheets for the runs below: one that copies its input, and one that writes a
  random number (EXSLT \<open>math:random\<close>).
\<close>

definition copy_xslt :: bytes where
  "copy_xslt = ''<xsl:stylesheet version=\"1.0\" xmlns:xsl=\"http://www.w3.org/1999/XSL/Transform\"><xsl:template match=\"/\"><xsl:copy-of select=\".\"/></xsl:template></xsl:stylesheet>''"

definition random_xslt :: bytes where
  "random_xslt = ''<xsl:stylesheet version=\"1.0\" xmlns:xsl=\"http://www.w3.org/1999/XSL/Transform\" xmlns:math=\"http://exslt.org/math\"><xsl:template match=\"/\"><r><xsl:value-of select=\"math:random()\"/></r></xsl:template></xsl:stylesheet>''"

text \<open>
  A toy lxml: \<open><root/>\<close> and the two stylesheets are the well-formed documents
  (the root of \<open><root/>\<close> has no namespace), everything else is a syntax error; no
  file exists; every schema rejects every document with one log entry; applying a
  stylesheet copies the document and leaves the engine state (a counter) alone. The
  remote service refuses its first call and answers every later one with an empty
  report.
\<close>

definition sample_ET :: "(string, string, string, string, nat) ET" where
  "sample_ET =
     \<lparr>fromstring = (\<lambda>x. if x = ''<root/>'' then Inr ''root''
                          else if x = copy_xslt \<or> x = random_xslt then Inr ''xsl:stylesheet''
                          else Inl (XMLSyntaxError ''Premature end of data in tag unclosed line 1'' ''1'')),
      tag = (\<lambda>el. el),
      XSLT = (\<lambda>el. Inr el),
      apply_xslt = (\<lambda>t doc ps g. (Inr doc, g)),
      tostring = (\<lambda>rt. Inr (Some rt)),
      getroot = (\<lambda>rt. None),
      parse_XMLSchema = (\<lambda>p. Inr p),
      parse_XSLT = (\<lambda>p. Inr p),
      assertValid = (\<lambda>sc doc. Some (DocumentInvalid ''Element root: not expected'',
                        [\<lparr>log_message = ''Element root: not expected'', log_line = ''1'',
                          log_column = ''0''\<rparr>])),
      path_exists = (\<lambda>p. False)\<rparr>"


definition sample_inst :: "(string, string, string, string, nat, nat) installation" where
  "sample_inst =
     \<lparr>lxml = sample_ET, XSD_DIR = ''/schemas/xsd'', SCHEMATRON_DIR = ''/schemas/schematron'',
      decode_utf8 = Inr,
      wsdvs = (\<lambda>s xml v loc. if s = 0 then (Inl (OtherException ''Connection refused''), Suc s)
                               else (Inr [], Suc s))\<rparr>"

definition sample_world :: "(string, string, nat, nat) world" where
  "sample_world = \<lparr>schema_cache = Map.empty, xslt_cache = Map.empty, engine = 0, remote = 0\<rparr>"

definition default_kwargs :: kwargs where
  "default_kwargs =
     \<lparr>vesid = None, schema_path = None, auto_detect = True, schematron = None, profile = None\<rparr>"



text \<open>
  No Saxon; a stand-in for the MD5 digest (the identity, so without collisions); and a
  codec with tables that are right on ASCII: an ASCII byte decodes to its code point,
  and no code point from 128 on is looked at.
\<close>

definition sample_saxon :: "nat saxon" where
  "sample_saxon = \<lparr>SAXON_AVAILABLE = False, saxon_run = (\<lambda>x s ps g. (SaxonNone ''unavailable'', g))\<rparr>"

definition sample_md5 :: "bytes \<Rightarrow> string" where
  "sample_md5 b = b"

definition ascii_lib :: pylib where
  "ascii_lib =
     \<lparr>decode_ignore = map of_char, uni_space = (\<lambda>c. False), uni_digit = (\<lambda>c. False),
      uni_ieq = (\<lambda>p c. False)\<rparr>"

section \<open>The registry: the aggregates, and how many results\<close>


lemma validate_returns:
  assumes "ValidatorRegistry_validate reg w x sel kw = (Inr m, w')"
  shows "(select_validators reg sel = [] \<and>
            m = \<lparr>results = [], overall_success = False, total_errors = 0, total_warnings = 0\<rparr>)
         \<or> (select_validators reg sel \<noteq> [] \<and> (\<exists>rs. m = aggregate rs))"
  using assms unfolding ValidatorRegistry_validate_def Let_def
  by (auto split: if_splits prod.splits sum.splits)

text \<open>
  Claim C2, as the spec states it, fails: a non-empty selection of which no type is
  registered resolves to no validator, and the early return at line 103 then gives
  \<open>overall_success = False\<close> with an empty result list, whereas \<open>all\<close> of an empty
  list is true. Here the default registry is asked for the unknown type \<open>xslt\<close>.
\<close>

theorem registry_unknown_selection_counterexample:
  "ValidatorRegistry_validate (register_defaults sample_inst) sample_world
      ''<root/>'' (Some [''xslt'']) default_kwargs
     = (Inr \<lparr>results = [], overall_success = False, total_errors = 0, total_warnings = 0\<rparr>,
        sample_world) \<and>
   overall_success \<lparr>results = [], overall_success = False, total_errors = 0, total_warnings = 0\<rparr>
     \<noteq> list_all success
         (results \<lparr>results = [], overall_success = False, total_errors = 0, total_warnings = 0\<rparr>)"
  by (simp add: ValidatorRegistry_validate_def select_validators_def register_defaults_def
      register_def HelgerValidator_def XSDValidator_def SchematronValidator_def
      List.map_filter_def)

text \<open>
  Claim C2, amended: for every registry, world, document, selection and options, the
  \<open>MultiValidationResult\<close> that the batch returns has as its two totals the sums of
  the results' error and warning counts; its \<open>overall_success\<close> is true exactly when
  the selection resolves to at least one validator and every result succeeded; and when
  the selection resolves to no validator, its result list is empty (so that
  \<open>overall_success\<close> is false and both totals are zero).
\<close>

theorem registry_aggregates:
  assumes "ValidatorRegistry_validate reg w xml_bytes validator_types kw = (Inr m, w')"
  shows "total_errors m = sum_list (map (\<lambda>r. int (length (errors r))) (results m)) \<and>
     total_warnings m = sum_list (map (\<lambda>r. int (length (warnings r))) (results m)) \<and>
     overall_success m
       = (select_validators reg validator_types \<noteq> [] \<and> list_all success (results m)) \<and>
     (select_validators reg validator_types = [] \<longrightarrow>
        results m = [] \<and> \<not> overall_success m \<and> total_errors m = 0 \<and> total_warnings m = 0)"
  using validate_returns[OF assms] by (auto simp: aggregate_def)

text \<open>
  The amended claim at a run: the default registry, asked for the structural
  validator on a document that is not well-formed, returns one failed result with one
  Error issue.
\<close>

theorem registry_aggregates_witness:
  "ValidatorRegistry_validate (register_defaults sample_inst) sample_world
      ''<invalid><unclosed>'' (Some [''xsd'']) default_kwargs
     = (Inr \<lparr>results =
               [\<lparr>validator_name = ''XSD Schema'', validator_type = ''xsd'', success = False,
                 issues = [\<lparr>severity = ERROR, rule_id = Some ''XML_SYNTAX'',
                            message = Some ''XML parsing error: Premature end of data in tag unclosed line 1'',
                            location = Some ''line 1'', source = Some ''XSD Schema''\<rparr>],
                 raw_response = None\<rparr>],
              overall_success = False, total_errors = 1, total_warnings = 0\<rparr>,
        sample_world) \<and>
   select_validators (register_defaults sample_inst) (Some [''xsd'']) \<noteq> [] \<and>
   total_errors \<lparr>results =
               [\<lparr>validator_name = ''XSD Schema'', validator_type = ''xsd'', success = False,
                 issues = [\<lparr>severity = ERROR, rule_id = Some ''XML_SYNTAX'',
                            message = Some ''XML parsing error: Premature end of data in tag unclosed line 1'',
                            location = Some ''line 1'', source = Some ''XSD Schema''\<rparr>],
                 raw_response = None\<rparr>],
              overall_success = False, total_errors = 1, total_warnings = 0\<rparr> = 1"
proof -
  have run: "ValidatorRegistry_validate (register_defaults sample_inst) sample_world
      ''<invalid><unclosed>'' (Some [''xsd'']) default_kwargs
     = (Inr \<lparr>results =
               [\<lparr>validator_name = ''XSD Schema'', validator_type = ''xsd'', success = False,
                 issues = [\<lparr>severity = ERROR, rule_id = Some ''XML_SYNTAX'',
                            message = Some ''XML parsing error: Premature end of data in tag unclosed line 1'',
                            location = Some ''line 1'', source = Some ''XSD Schema''\<rparr>],
                 raw_response = None\<rparr>],
              overall_success = False, total_errors = 1, total_warnings = 0\<rparr>,
        sample_world)"
    by (simp add: ValidatorRegistry_validate_def select_validators_def register_defaults_def
      register_def HelgerValidator_def XSDValidator_def SchematronValidator_def
      List.map_filter_def XSDValidator_validate_def sample_inst_def sample_ET_def copy_xslt_def random_xslt_def
      default_kwargs_def sample_world_def aggregate_def errors_def warnings_def
      xsd_result_def as_outcome_def)
  from registry_aggregates[OF run] run show ?thesis by simp
qed










section \<open>The comparison matrix\<close>

lemma map_of_foldl_update:
  "map_of (foldl (\<lambda>d r. AList.update (k r) (f r) d) d0 rs) n =
     (case filter (\<lambda>r. k r = n) rs of [] \<Rightarrow> map_of d0 n | y # ys \<Rightarrow> Some (f (last (y # ys))))"
  by (induction rs arbitrary: d0) (auto simp: update_conv' split: list.splits)

lemma keys_update: "fst ` set (AList.update k v al) = insert k (fst ` set al)"
  using dom_update[of k v al] by (simp add: dom_map_of_conv_image_fst)

lemma keys_foldl_update:
  "set (map fst (foldl (\<lambda>d r. AList.update (k r) (f r) d) d0 rs)) = set (map fst d0) \<union> k ` set rs"
  by (induction rs arbitrary: d0) (simp_all add: keys_update)

lemma distinct_foldl_update:
  "distinct (map fst d0) \<Longrightarrow>
     distinct (map fst (foldl (\<lambda>d r. AList.update (k r) (f r) d) d0 rs))"
  by (induction rs arbitrary: d0) (auto simp: distinct_update)

lemma build_row_keys:
  "distinct (map fst (row_validators (build_row rs rid))) \<and>
   set (map fst (row_validators (build_row rs rid))) = validator_name ` set rs"
  using keys_foldl_update[of validator_name "entry_for rid" "[]" rs]
    distinct_foldl_update[of "[]" validator_name "entry_for rid" rs]
  by (simp add: build_row_def)

lemma build_row_lookup:
  "r \<in> set rs \<Longrightarrow>
   map_of (row_validators (build_row rs rid)) (validator_name r)
     = Some (entry_for rid (last (filter (\<lambda>r'. validator_name r' = validator_name r) rs)))"
proof -
  assume "r \<in> set rs"
  then have "filter (\<lambda>r'. validator_name r' = validator_name r) rs \<noteq> []"
    by (auto simp: filter_empty_conv)
  then show ?thesis
    by (simp add: build_row_def map_of_foldl_update split: list.splits)
qed

lemma last_filter_distinct:
  "distinct (map k rs) \<Longrightarrow> r \<in> set rs \<Longrightarrow> filter (\<lambda>r'. k r' = k r) rs = [r]"
proof (induction rs)
  case Nil
  then show ?case by simp
next
  case (Cons a rs)
  show ?case
  proof (cases "a = r")
    case True
    with Cons.prems have "\<forall>x\<in>set rs. k x \<noteq> k r" by (auto simp: image_iff)
    then have "filter (\<lambda>r'. k r' = k r) rs = []" by (simp add: filter_empty_conv)
    with True show ?thesis by simp
  next
    case False
    with Cons.prems have r: "r \<in> set rs" and d: "distinct (map k rs)" and "k a \<noteq> k r"
      by (auto simp: image_iff)
    with Cons.IH show ?thesis by simp
  qed
qed

lemma set_all_rule_ids: "set (all_rule_ids rs) = (\<Union>r\<in>set rs. rule_id ` set (issues r))"
  by (auto simp: all_rule_ids_def)

lemma comparison_returns:
  assumes "\<not> (None \<in> (\<Union>r\<in>set rs. rule_id ` set (issues r)) \<and>
              (\<exists>i\<in>(\<Union>r\<in>set rs. rule_id ` set (issues r)). i \<noteq> None))"
  shows "comparison rs = Inr (map (build_row rs) (sort (remdups (all_rule_ids rs))))"
proof -
  from assms have "\<not> (None \<in> set (all_rule_ids rs) \<and> list_ex (\<lambda>i. i \<noteq> None) (all_rule_ids rs))"
    unfolding set_all_rule_ids[symmetric] list_ex_iff by blast
  then show ?thesis by (simp add: comparison_def sorted_rule_ids_def)
qed

lemma found_entry_for: "found (entry_for rid r) = (rid \<in> rule_id ` set (issues r))"
proof (cases "filter (\<lambda>i. rule_id i = rid) (issues r)")
  case Nil
  then show ?thesis by (auto simp: entry_for_def filter_empty_conv)
next
  case (Cons m ms)
  then have "m \<in> set (filter (\<lambda>i. rule_id i = rid) (issues r))" by simp
  then have "rid \<in> rule_id ` set (issues r)" by auto
  with Cons show ?thesis by (simp add: entry_for_def)
qed

text \<open>
  Claim C8, as the spec states it, fails: rows are dictionaries keyed by validator
  name, so results with the same name share one entry and the later one overwrites it.
  The selection \<open>helger,helger\<close> runs the remote validator twice; the first call fails
  (issue \<open>HELGER_CONNECTION\<close>), the second succeeds with no issue. The row of
  \<open>HELGER_CONNECTION\<close> then says \<open>found = False\<close> for the only name there is,
  although the first result has that issue.
\<close>

theorem comparison_repeated_name_counterexample:
  "ValidatorRegistry_validate_with_comparison (register_defaults sample_inst)
      sample_world ''<root/>'' [''helger'', ''helger''] default_kwargs
     = (Inr (\<lparr>results =
                [\<lparr>validator_name = ''Helger WSDVS'', validator_type = ''helger'', success = False,
                  issues = [\<lparr>severity = ERROR, rule_id = Some ''HELGER_CONNECTION'',
                             message = Some ''Validation service error: Connection refused'',
                             location = None, source = Some ''Helger WSDVS''\<rparr>],
                  raw_response = None\<rparr>,
                 \<lparr>validator_name = ''Helger WSDVS'', validator_type = ''helger'', success = True,
                  issues = [], raw_response = Some []\<rparr>],
               overall_success = False, total_errors = 1, total_warnings = 0\<rparr>,
             [\<lparr>row_rule_id = Some ''HELGER_CONNECTION'',
               row_validators = [(''Helger WSDVS'', NotFound)]\<rparr>]),
        sample_world\<lparr>remote := 2\<rparr>)"
  by (simp add: ValidatorRegistry_validate_with_comparison_def ValidatorRegistry_validate_def
      select_validators_def register_defaults_def register_def
      HelgerValidator_def XSDValidator_def SchematronValidator_def List.map_filter_def
      HelgerValidator_validate_def sample_inst_def sample_world_def default_kwargs_def truthy_def
      helger_issues_def comparison_def all_rule_ids_def build_row_def entry_for_def Let_def
      sorted_rule_ids_def aggregate_def errors_def warnings_def as_outcome_def)

text \<open>
  Claim C8, amended: take a comparison run whose batch returns and whose rule
  identifiers can be sorted (none of them is \<open>None\<close>, or all are). The run then
  returns the batch result and a matrix with one row per rule identifier occurring in
  any result, in sorted order and without repetition. Every row has exactly one entry
  per validator name occurring among the results, and no other entry; the entry under a
  name is computed from the last result that carries that name. So when the results'
  validator names are pairwise distinct, the entry of every result records \<open>found\<close>
  exactly when that result has an issue with the row's rule identifier, with the
  severity and the message of its first such issue.
\<close>

theorem comparison_matrix:
  assumes run: "ValidatorRegistry_validate reg w xml_bytes (Some validator_types) kw = (Inr m, w')"
    and ids: "\<not> (None \<in> (\<Union>r\<in>set (results m). rule_id ` set (issues r)) \<and>
                 (\<exists>i\<in>(\<Union>r\<in>set (results m). rule_id ` set (issues r)). i \<noteq> None))"
  shows "\<exists>cmp.
      ValidatorRegistry_validate_with_comparison reg w xml_bytes validator_types kw
        = (Inr (m, cmp), w') \<and>
      sorted (map row_rule_id cmp) \<and> distinct (map row_rule_id cmp) \<and>
      set (map row_rule_id cmp) = (\<Union>r\<in>set (results m). rule_id ` set (issues r)) \<and>
      (\<forall>row\<in>set cmp.
          distinct (map fst (row_validators row)) \<and>
          set (map fst (row_validators row)) = validator_name ` set (results m) \<and>
          (\<forall>r\<in>set (results m).
             map_of (row_validators row) (validator_name r)
               = Some (entry_for (row_rule_id row)
                         (last (filter (\<lambda>r'. validator_name r' = validator_name r) (results m)))))) \<and>
      (distinct (map validator_name (results m)) \<longrightarrow>
         (\<forall>row\<in>set cmp. \<forall>r\<in>set (results m). \<exists>e.
            map_of (row_validators row) (validator_name r) = Some e \<and>
            found e = (row_rule_id row \<in> rule_id ` set (issues r)) \<and>
            e = (case filter (\<lambda>i. rule_id i = row_rule_id row) (issues r) of
                   [] \<Rightarrow> NotFound
                 | i # rest \<Rightarrow> Found (severity_value (severity i)) (message i))))"
proof -
  define rs where "rs = results m"
  define cmp where "cmp = map (build_row rs) (sort (remdups (all_rule_ids rs)))"
  have c: "comparison rs = Inr cmp"
    unfolding cmp_def using ids[folded rs_def] by (rule comparison_returns)
  have out: "ValidatorRegistry_validate_with_comparison reg w xml_bytes validator_types kw
        = (Inr (m, cmp), w')"
    using run c by (simp add: ValidatorRegistry_validate_with_comparison_def rs_def)
  have rid: "map row_rule_id cmp = sort (remdups (all_rule_ids rs))"
    by (simp add: cmp_def build_row_def comp_def)
  have s: "sorted (map row_rule_id cmp)" by (simp add: rid)
  have d: "distinct (map row_rule_id cmp)" by (simp add: rid)
  have u: "set (map row_rule_id cmp) = (\<Union>r\<in>set rs. rule_id ` set (issues r))"
    by (simp add: rid set_all_rule_ids)
  have row: "row = build_row rs (row_rule_id row)" if "row \<in> set cmp" for row
    using that by (auto simp: cmp_def build_row_def)
  have g: "\<forall>row\<in>set cmp.
          distinct (map fst (row_validators row)) \<and>
          set (map fst (row_validators row)) = validator_name ` set rs \<and>
          (\<forall>r\<in>set rs.
             map_of (row_validators row) (validator_name r)
               = Some (entry_for (row_rule_id row)
                         (last (filter (\<lambda>r'. validator_name r' = validator_name r) rs))))"
  proof
    fix row assume "row \<in> set cmp"
    then have eq: "row = build_row rs (row_rule_id row)" by (rule row)
    show "distinct (map fst (row_validators row)) \<and>
          set (map fst (row_validators row)) = validator_name ` set rs \<and>
          (\<forall>r\<in>set rs.
             map_of (row_validators row) (validator_name r)
               = Some (entry_for (row_rule_id row)
                         (last (filter (\<lambda>r'. validator_name r' = validator_name r) rs))))"
      using build_row_keys[of rs "row_rule_id row"] build_row_lookup[of _ rs "row_rule_id row"]
      unfolding eq[symmetric] by blast
  qed
  have p: "distinct (map validator_name rs) \<longrightarrow>
         (\<forall>row\<in>set cmp. \<forall>r\<in>set rs. \<exists>e.
            map_of (row_validators row) (validator_name r) = Some e \<and>
            found e = (row_rule_id row \<in> rule_id ` set (issues r)) \<and>
            e = (case filter (\<lambda>i. rule_id i = row_rule_id row) (issues r) of
                   [] \<Rightarrow> NotFound
                 | i # rest \<Rightarrow> Found (severity_value (severity i)) (message i)))"
  proof (intro impI ballI)
    fix row r
    assume dn: "distinct (map validator_name rs)" and row: "row \<in> set cmp" and r: "r \<in> set rs"
    have "filter (\<lambda>r'. validator_name r' = validator_name r) rs = [r]"
      by (rule last_filter_distinct[OF dn r])
    with g row r have "map_of (row_validators row) (validator_name r) = Some (entry_for (row_rule_id row) r)"
      by simp
    then show "\<exists>e. map_of (row_validators row) (validator_name r) = Some e \<and>
            found e = (row_rule_id row \<in> rule_id ` set (issues r)) \<and>
            e = (case filter (\<lambda>i. rule_id i = row_rule_id row) (issues r) of
                   [] \<Rightarrow> NotFound
                 | i # rest \<Rightarrow> Found (severity_value (severity i)) (message i))"
      using found_entry_for[of "row_rule_id row" r] by (simp add: entry_for_def)
  qed
  show ?thesis
    using out s d u g p unfolding rs_def by blast
qed

text \<open>The matrix of a run of the structural and the remote validator on \<open><root/>\<close>.\<close>

theorem comparison_matrix_witness:
  "ValidatorRegistry_validate (register_defaults sample_inst) sample_world ''<root/>''
      (Some [''xsd'', ''helger'']) default_kwargs
     = (Inr \<lparr>results =
               [\<lparr>validator_name = ''XSD Schema'', validator_type = ''xsd'', success = True,
                 issues = [\<lparr>severity = INFO, rule_id = Some ''XSD_NO_SCHEMA'',
                            message = Some ''XML is well-formed. No XSD schema found for validation.'',
                            location = None, source = Some ''XSD Schema''\<rparr>],
                 raw_response = None\<rparr>,
                \<lparr>validator_name = ''Helger WSDVS'', validator_type = ''helger'', success = False,
                 issues = [\<lparr>severity = ERROR, rule_id = Some ''HELGER_CONNECTION'',
                            message = Some ''Validation service error: Connection refused'',
                            location = None, source = Some ''Helger WSDVS''\<rparr>],
                 raw_response = None\<rparr>],
              overall_success = False, total_errors = 1, total_warnings = 0\<rparr>,
        sample_world\<lparr>remote := 1\<rparr>) \<and>
   \<not> (None \<in> (\<Union>r\<in>set (results \<lparr>results =
               [\<lparr>validator_name = ''XSD Schema'', validator_type = ''xsd'', success = True,
                 issues = [\<lparr>severity = INFO, rule_id = Some ''XSD_NO_SCHEMA'',
                            message = Some ''XML is well-formed. No XSD schema found for validation.'',
                            location = None, source = Some ''XSD Schema''\<rparr>],
                 raw_response = None\<rparr>,
                \<lparr>validator_name = ''Helger WSDVS'', validator_type = ''helger'', success = False,
                 issues = [\<lparr>severity = ERROR, rule_id = Some ''HELGER_CONNECTION'',
                            message = Some ''Validation service error: Connection refused'',
                            location = None, source = Some ''Helger WSDVS''\<rparr>],
                 raw_response = None\<rparr>],
              overall_success = False, total_errors = 1, total_warnings = 0\<rparr>). rule_id ` set (issues r)) \<and>
        (\<exists>i\<in>(\<Union>r\<in>set (results \<lparr>results =
               [\<lparr>validator_name = ''XSD Schema'', validator_type = ''xsd'', success = True,
                 issues = [\<lparr>severity = INFO, rule_id = Some ''XSD_NO_SCHEMA'',
                            message = Some ''XML is well-formed. No XSD schema found for validation.'',
                            location = None, source = Some ''XSD Schema''\<rparr>],
                 raw_response = None\<rparr>,
                \<lparr>validator_name = ''Helger WSDVS'', validator_type = ''helger'', success = False,
                 issues = [\<lparr>severity = ERROR, rule_id = Some ''HELGER_CONNECTION'',
                            message = Some ''Validation service error: Connection refused'',
                            location = None, source = Some ''Helger WSDVS''\<rparr>],
                 raw_response = None\<rparr>],
              overall_success = False, total_errors = 1, total_warnings = 0\<rparr>). rule_id ` set (issues r)). i \<noteq> None)) \<and>
   ValidatorRegistry_validate_with_comparison (register_defaults sample_inst)
      sample_world ''<root/>'' [''xsd'', ''helger''] default_kwargs
     = (Inr (\<lparr>results =
               [\<lparr>validator_name = ''XSD Schema'', validator_type = ''xsd'', success = True,
                 issues = [\<lparr>severity = INFO, rule_id = Some ''XSD_NO_SCHEMA'',
                            message = Some ''XML is well-formed. No XSD schema found for validation.'',
                            location = None, source = Some ''XSD Schema''\<rparr>],
                 raw_response = None\<rparr>,
                \<lparr>validator_name = ''Helger WSDVS'', validator_type = ''helger'', success = False,
                 issues = [\<lparr>severity = ERROR, rule_id = Some ''HELGER_CONNECTION'',
                            message = Some ''Validation service error: Connection refused'',
                            location = None, source = Some ''Helger WSDVS''\<rparr>],
                 raw_response = None\<rparr>],
              overall_success = False, total_errors = 1, total_warnings = 0\<rparr>,
             [\<lparr>row_rule_id = Some ''HELGER_CONNECTION'',
         row_validators = [(''XSD Schema'', NotFound),
                           (''Helger WSDVS'', Found ''error'' (Some ''Validation service error: Connection refused''))]\<rparr>,
        \<lparr>row_rule_id = Some ''XSD_NO_SCHEMA'',
         row_validators = [(''XSD Schema'', Found ''info'' (Some ''XML is well-formed. No XSD schema found for validation.'')),
                           (''Helger WSDVS'', NotFound)]\<rparr>]),
        sample_world\<lparr>remote := 1\<rparr>)"
proof -
  have run: "ValidatorRegistry_validate (register_defaults sample_inst) sample_world ''<root/>''
      (Some [''xsd'', ''helger'']) default_kwargs
     = (Inr \<lparr>results =
               [\<lparr>validator_name = ''XSD Schema'', validator_type = ''xsd'', success = True,
                 issues = [\<lparr>severity = INFO, rule_id = Some ''XSD_NO_SCHEMA'',
                            message = Some ''XML is well-formed. No XSD schema found for validation.'',
                            location = None, source = Some ''XSD Schema''\<rparr>],
                 raw_response = None\<rparr>,
                \<lparr>validator_name = ''Helger WSDVS'', validator_type = ''helger'', success = False,
                 issues = [\<lparr>severity = ERROR, rule_id = Some ''HELGER_CONNECTION'',
                            message = Some ''Validation service error: Connection refused'',
                            location = None, source = Some ''Helger WSDVS''\<rparr>],
                 raw_response = None\<rparr>],
              overall_success = False, total_errors = 1, total_warnings = 0\<rparr>,
        sample_world\<lparr>remote := 1\<rparr>)"
    by (simp add: ValidatorRegistry_validate_def
      select_validators_def register_defaults_def register_def
      HelgerValidator_def XSDValidator_def SchematronValidator_def List.map_filter_def
      HelgerValidator_validate_def sample_inst_def sample_world_def default_kwargs_def truthy_def
      XSDValidator_validate_def XSDValidator_detect_schema_def root_namespace_def sample_ET_def copy_xslt_def random_xslt_def
      xsd_result_def aggregate_def errors_def warnings_def as_outcome_def)
  have ids: "\<not> (None \<in> (\<Union>r\<in>set (results \<lparr>results =
               [\<lparr>validator_name = ''XSD Schema'', validator_type = ''xsd'', success = True,
                 issues = [\<lparr>severity = INFO, rule_id = Some ''XSD_NO_SCHEMA'',
                            message = Some ''XML is well-formed. No XSD schema found for validation.'',
                            location = None, source = Some ''XSD Schema''\<rparr>],
                 raw_response = None\<rparr>,
                \<lparr>validator_name = ''Helger WSDVS'', validator_type = ''helger'', success = False,
                 issues = [\<lparr>severity = ERROR, rule_id = Some ''HELGER_CONNECTION'',
                            message = Some ''Validation service error: Connection refused'',
                            location = None, source = Some ''Helger WSDVS''\<rparr>],
                 raw_response = None\<rparr>],
              overall_success = False, total_errors = 1, total_warnings = 0\<rparr>). rule_id ` set (issues r)) \<and>
        (\<exists>i\<in>(\<Union>r\<in>set (results \<lparr>results =
               [\<lparr>validator_name = ''XSD Schema'', validator_type = ''xsd'', success = True,
                 issues = [\<lparr>severity = INFO, rule_id = Some ''XSD_NO_SCHEMA'',
                            message = Some ''XML is well-formed. No XSD schema found for validation.'',
                            location = None, source = Some ''XSD Schema''\<rparr>],
                 raw_response = None\<rparr>,
                \<lparr>validator_name = ''Helger WSDVS'', validator_type = ''helger'', success = False,
                 issues = [\<lparr>severity = ERROR, rule_id = Some ''HELGER_CONNECTION'',
                            message = Some ''Validation service error: Connection refused'',
                            location = None, source = Some ''Helger WSDVS''\<rparr>],
                 raw_response = None\<rparr>],
              overall_success = False, total_errors = 1, total_warnings = 0\<rparr>). rule_id ` set (issues r)). i \<noteq> None))"
    by simp
  have out: "ValidatorRegistry_validate_with_comparison (register_defaults sample_inst)
      sample_world ''<root/>'' [''xsd'', ''helger''] default_kwargs
     = (Inr (\<lparr>results =
               [\<lparr>validator_name = ''XSD Schema'', validator_type = ''xsd'', success = True,
                 issues = [\<lparr>severity = INFO, rule_id = Some ''XSD_NO_SCHEMA'',
                            message = Some ''XML is well-formed. No XSD schema found for validation.'',
                            location = None, source = Some ''XSD Schema''\<rparr>],
                 raw_response = None\<rparr>,
                \<lparr>validator_name = ''Helger WSDVS'', validator_type = ''helger'', success = False,
                 issues = [\<lparr>severity = ERROR, rule_id = Some ''HELGER_CONNECTION'',
                            message = Some ''Validation service error: Connection refused'',
                            location = None, source = Some ''Helger WSDVS''\<rparr>],
                 raw_response = None\<rparr>],
              overall_success = False, total_errors = 1, total_warnings = 0\<rparr>,
             [\<lparr>row_rule_id = Some ''HELGER_CONNECTION'',
         row_validators = [(''XSD Schema'', NotFound),
                           (''Helger WSDVS'', Found ''error'' (Some ''Validation service error: Connection refused''))]\<rparr>,
        \<lparr>row_rule_id = Some ''XSD_NO_SCHEMA'',
         row_validators = [(''XSD Schema'', Found ''info'' (Some ''XML is well-formed. No XSD schema found for validation.'')),
                           (''Helger WSDVS'', NotFound)]\<rparr>]),
        sample_world\<lparr>remote := 1\<rparr>)"
    by (simp add: ValidatorRegistry_validate_with_comparison_def run
        comparison_def all_rule_ids_def build_row_def entry_for_def Let_def sorted_rule_ids_def)
  from comparison_matrix[OF run ids] run ids out show ?thesis by simp
qed

section \<open>The transformer\<close>

text \<open>
  Claim C4: for every document and stylesheet, when the version (the forced one, or
  else the detected one) is 2.0 or 3.0 and Saxon is not available, \<open>transform\<close>
  returns a failure whose \<open>xslt_version\<close> is that version and whose message names
  it, with no output and no processor; the lxml processor is not tried: the
  stylesheet cache and the engine state are left as they were.
\<close>

theorem transform_unsupported_version:
  "\<not> SAXON_AVAILABLE sx \<Longrightarrow>
   version = (case force_version of Some v \<Rightarrow> v | None \<Rightarrow> detect_xslt_version lib xslt_bytes) \<Longrightarrow>
   version = V2_0 \<or> version = V3_0 \<Longrightarrow>
   transform lib et md5 sx cache g xml_bytes xslt_bytes force_version parameters =
     (Inr \<lparr>tr_success = False, tr_output = None,
           error = Some (''XSLT '' @ version_value version
                         @ '' requires saxonche. Install with: pip install saxonche''),
           xslt_version = Some version, processor = None\<rparr>,
      cache, g)"
  by (auto simp: transform_def Let_def)

text \<open>
  A stylesheet declaring version 2.0, without Saxon.
\<close>

theorem transform_unsupported_version_witness:
  "\<not> SAXON_AVAILABLE sample_saxon \<and>
   detect_xslt_version ascii_lib ''<xsl:stylesheet version=\"2.0\" xmlns:xsl=\"http://www.w3.org/1999/XSL/Transform\"/>'' = V2_0 \<and>
   transform ascii_lib sample_ET sample_md5 sample_saxon Map.empty 0 ''<root/>''
       ''<xsl:stylesheet version=\"2.0\" xmlns:xsl=\"http://www.w3.org/1999/XSL/Transform\"/>'' None None =
     (Inr \<lparr>tr_success = False, tr_output = None,
           error = Some ''XSLT 2.0 requires saxonche. Install with: pip install saxonche'',
           xslt_version = Some V2_0, processor = None\<rparr>,
      Map.empty, 0)"
proof -
  have a: "\<not> SAXON_AVAILABLE sample_saxon" by (simp add: sample_saxon_def)
  have b: "detect_xslt_version ascii_lib ''<xsl:stylesheet version=\"2.0\" xmlns:xsl=\"http://www.w3.org/1999/XSL/Transform\"/>'' = V2_0"
    by code_simp
  have c: "V2_0 = (case None of Some v \<Rightarrow> v | None \<Rightarrow> detect_xslt_version ascii_lib ''<xsl:stylesheet version=\"2.0\" xmlns:xsl=\"http://www.w3.org/1999/XSL/Transform\"/>'')"
    using b by simp
  show ?thesis
    using a b transform_unsupported_version[OF a c, of sample_ET sample_md5 Map.empty 0 "''<root/>''" None]
    by simp
qed









section \<open>The local validators\<close>

text \<open>
  Claim C7: for every well-formed document, when no schema path is given (\<open>None\<close>
  or the empty string) and the root namespace has no entry in \<open>SCHEMA_MAP\<close> (or
  detection is switched off), the structural validator returns \<open>success = True\<close>
  with exactly one issue, of severity Info, saying that the document is well-formed
  and no schema was found; the schema cache is unchanged.
\<close>

theorem xsd_no_schema_info:
  "fromstring et xml_bytes = Inr doc \<Longrightarrow>
   spath = None \<or> spath = Some [] \<Longrightarrow>
   \<not> detect \<or> (\<forall>ns. root_namespace (tag et doc) = Some ns \<longrightarrow> map_of SCHEMA_MAP ns = None) \<Longrightarrow>
   XSDValidator_validate et dir cache xml_bytes spath detect =
     (Inr \<lparr>validator_name = ''XSD Schema'', validator_type = ''xsd'', success = True,
           issues = [\<lparr>severity = INFO, rule_id = Some ''XSD_NO_SCHEMA'',
                      message = Some ''XML is well-formed. No XSD schema found for validation.'',
                      location = None, source = Some ''XSD Schema''\<rparr>],
           raw_response = None\<rparr>,
      cache)"
  by (auto simp: XSDValidator_validate_def XSDValidator_detect_schema_def xsd_result_def
      split: option.splits)

text \<open>
  The document \<open><root/>\<close>, whose root has no namespace.
\<close>

theorem xsd_no_schema_info_witness:
  "fromstring sample_ET ''<root/>'' = Inr ''root'' \<and>
   root_namespace (tag sample_ET ''root'') = None \<and>
   XSDValidator_validate sample_ET ''/schemas/xsd'' Map.empty ''<root/>'' None True =
     (Inr \<lparr>validator_name = ''XSD Schema'', validator_type = ''xsd'', success = True,
           issues = [\<lparr>severity = INFO, rule_id = Some ''XSD_NO_SCHEMA'',
                      message = Some ''XML is well-formed. No XSD schema found for validation.'',
                      location = None, source = Some ''XSD Schema''\<rparr>],
           raw_response = None\<rparr>,
      Map.empty)"
proof -
  have a: "fromstring sample_ET ''<root/>'' = Inr ''root''" by (simp add: sample_ET_def copy_xslt_def random_xslt_def)
  have n: "root_namespace (tag sample_ET ''root'') = None"
    by (simp add: sample_ET_def root_namespace_def)
  have b: "(None :: string option) = None \<or> None = Some []" by simp
  have c: "\<not> True \<or> (\<forall>ns. root_namespace (tag sample_ET ''root'') = Some ns \<longrightarrow> map_of SCHEMA_MAP ns = None)"
    using n by simp
  show ?thesis
    using a n xsd_no_schema_info[OF a b c, of "''/schemas/xsd''" Map.empty] by simp
qed

text \<open>
  Claim C10, as stated, fails: \<open>_load_schema\<close> looks in the cache before it looks
  at the file system. A schema loaded earlier under the path \<open>gone.xsd\<close> is still
  in the cache after its file is gone; the path does not exist, yet the document is
  checked against the cached schema and rejected.
\<close>

theorem xsd_cached_schema_counterexample:
  "fromstring sample_ET ''<root/>'' = Inr ''root'' \<and>
   \<not> path_exists sample_ET (resolve_in ''/schemas/xsd'' ''gone.xsd'') \<and>
   XSDValidator_validate sample_ET ''/schemas/xsd'' [''gone.xsd'' \<mapsto> ''compiled schema'']
       ''<root/>'' (Some ''gone.xsd'') True =
     (Inr \<lparr>validator_name = ''XSD Schema'', validator_type = ''xsd'', success = False,
           issues = [\<lparr>severity = ERROR, rule_id = Some ''XSD_INVALID'',
                      message = Some ''Element root: not expected'',
                      location = Some ''line 1, column 0'', source = Some ''XSD Schema''\<rparr>],
           raw_response = None\<rparr>,
      [''gone.xsd'' \<mapsto> ''compiled schema''])"
  by (simp add: XSDValidator_validate_def XSDValidator_load_schema_def xsd_result_def
      sample_ET_def copy_xslt_def random_xslt_def xsd_invalid_issue_def)

text \<open>
  Claim C10, amended: for every well-formed document, when the caller gives a
  non-empty schema path that is not in the schema cache and whose file does not exist
  or does not load, the structural validator returns \<open>success = True\<close> with the
  single Info issue \<open>XSD_NO_SCHEMA\<close>, whatever \<open>auto_detect\<close> and the document's
  namespace are (no fallback to detection), exactly as a call with no schema path and
  detection switched off does.
\<close>

theorem xsd_explicit_schema_unavailable:
  "fromstring et xml_bytes = Inr doc \<Longrightarrow>
   p \<noteq> [] \<Longrightarrow>
   cache p = None \<Longrightarrow>
   \<not> path_exists et (resolve_in dir p) \<or> (\<exists>e. parse_XMLSchema et (resolve_in dir p) = Inl e) \<Longrightarrow>
   XSDValidator_validate et dir cache xml_bytes (Some p) detect =
     (Inr \<lparr>validator_name = ''XSD Schema'', validator_type = ''xsd'', success = True,
           issues = [\<lparr>severity = INFO, rule_id = Some ''XSD_NO_SCHEMA'',
                      message = Some ''XML is well-formed. No XSD schema found for validation.'',
                      location = None, source = Some ''XSD Schema''\<rparr>],
           raw_response = None\<rparr>,
      cache) \<and>
   XSDValidator_validate et dir cache xml_bytes (Some p) detect =
     XSDValidator_validate et dir cache xml_bytes None False"
  by (auto simp: XSDValidator_validate_def XSDValidator_load_schema_def xsd_result_def Let_def
      split: option.splits)

text \<open>
  The missing file \<open>missing.xsd\<close>.
\<close>

theorem xsd_explicit_schema_unavailable_witness:
  "fromstring sample_ET ''<root/>'' = Inr ''root'' \<and>
   \<not> path_exists sample_ET (resolve_in ''/schemas/xsd'' ''missing.xsd'') \<and>
   XSDValidator_validate sample_ET ''/schemas/xsd'' Map.empty ''<root/>'' (Some ''missing.xsd'') True =
     (Inr \<lparr>validator_name = ''XSD Schema'', validator_type = ''xsd'', success = True,
           issues = [\<lparr>severity = INFO, rule_id = Some ''XSD_NO_SCHEMA'',
                      message = Some ''XML is well-formed. No XSD schema found for validation.'',
                      location = None, source = Some ''XSD Schema''\<rparr>],
           raw_response = None\<rparr>,
      Map.empty)"
proof -
  have a: "fromstring sample_ET ''<root/>'' = Inr ''root''" by (simp add: sample_ET_def copy_xslt_def random_xslt_def)
  have b: "''missing.xsd'' \<noteq> []" by simp
  have c: "(Map.empty :: string \<rightharpoonup> string) ''missing.xsd'' = None" by simp
  have n: "\<not> path_exists sample_ET (resolve_in ''/schemas/xsd'' ''missing.xsd'')"
    by (simp add: sample_ET_def copy_xslt_def random_xslt_def)
  have d: "\<not> path_exists sample_ET (resolve_in ''/schemas/xsd'' ''missing.xsd'')
      \<or> (\<exists>e. parse_XMLSchema sample_ET (resolve_in ''/schemas/xsd'' ''missing.xsd'') = Inl e)"
    using n by simp
  show ?thesis
    using a n xsd_explicit_schema_unavailable[OF a b c d, of True] by simp
qed

text \<open>
  Claim C6: for every document and all options, a result returned by the structural
  or by the rule-based validator has \<open>success\<close> exactly when none of its issues has
  severity Error. For the structural validator this rests on lxml: when
  \<open>assertValid\<close> raises \<open>DocumentInvalid\<close>, the schema's error log is not empty.
\<close>

theorem local_validators_success_invariant:
  "(\<forall>sc d m log. assertValid et sc d = Some (DocumentInvalid m, log) \<longrightarrow> log \<noteq> []) \<Longrightarrow>
   (\<forall>r c. XSDValidator_validate et xsd_dir cache xml_bytes spath detect = (Inr r, c)
       \<longrightarrow> success r = (\<forall>i\<in>set (issues r). severity i \<noteq> ERROR)) \<and>
   (\<forall>r c g'. SchematronValidator_validate et sch_dir cache2 g xml_bytes sch prof = (Inr r, c, g')
       \<longrightarrow> success r = (\<forall>i\<in>set (issues r). severity i \<noteq> ERROR))"
proof (intro conjI allI impI)
  fix r c
  assume lib: "\<forall>sc d m log. assertValid et sc d = Some (DocumentInvalid m, log) \<longrightarrow> log \<noteq> []"
  assume v: "XSDValidator_validate et xsd_dir cache xml_bytes spath detect = (Inr r, c)"
  show "success r = (\<forall>i\<in>set (issues r). severity i \<noteq> ERROR)"
    using v lib
    by (auto simp: XSDValidator_validate_def xsd_result_def xsd_invalid_issue_def
        split: sum.splits exception.splits prod.splits option.splits if_splits)
next
  fix r c g'
  assume v: "SchematronValidator_validate et sch_dir cache2 g xml_bytes sch prof = (Inr r, c, g')"
  show "success r = (\<forall>i\<in>set (issues r). severity i \<noteq> ERROR)"
    using v
    by (auto simp: SchematronValidator_validate_def sch_result_def list_ex_iff Let_def
        split: sum.splits exception.splits prod.splits option.splits if_splits)
qed

text \<open>
  A document rejected by a cached schema, and a document without rules.
\<close>

theorem local_validators_success_invariant_witness:
  "XSDValidator_validate sample_ET ''/schemas/xsd'' [''ubl.xsd'' \<mapsto> ''compiled schema'']
       ''<root/>'' (Some ''ubl.xsd'') True =
     (Inr \<lparr>validator_name = ''XSD Schema'', validator_type = ''xsd'', success = False,
           issues = [\<lparr>severity = ERROR, rule_id = Some ''XSD_INVALID'',
                      message = Some ''Element root: not expected'',
                      location = Some ''line 1, column 0'', source = Some ''XSD Schema''\<rparr>],
           raw_response = None\<rparr>,
      [''ubl.xsd'' \<mapsto> ''compiled schema'']) \<and>
   SchematronValidator_validate sample_ET ''/schemas/schematron'' Map.empty 0 ''<root/>'' None None =
     (Inr \<lparr>validator_name = ''Schematron'', validator_type = ''schematron'', success = True,
           issues = [\<lparr>severity = INFO, rule_id = Some ''SCH_NO_RULES'',
                      message = Some ''No Schematron rules found for this document type.'',
                      location = None, source = Some ''Schematron''\<rparr>],
           raw_response = None\<rparr>,
      Map.empty, 0)"
proof -
  have lib: "\<forall>sc d m log. assertValid sample_ET sc d = Some (DocumentInvalid m, log) \<longrightarrow> log \<noteq> []"
    by (auto simp: sample_ET_def)
  show ?thesis
    using local_validators_success_invariant[OF lib, of "''/schemas/xsd''"
        "[''ubl.xsd'' \<mapsto> ''compiled schema'']" "''<root/>''" "Some ''ubl.xsd''" True
        "''/schemas/schematron''" Map.empty 0 None None]
    by (simp add: XSDValidator_validate_def XSDValidator_load_schema_def xsd_result_def
        sample_ET_def copy_xslt_def random_xslt_def xsd_invalid_issue_def SchematronValidator_validate_def
        SchematronValidator_detect_profile_def root_namespace_def sch_result_def)
qed

text \<open>
  Claim C1, as stated, fails for the remote validator, which is registered by
  default and has no parsing step: on the malformed document
  \<open><invalid><unclosed>\<close> its only issue is \<open>HELGER_CONNECTION\<close> when the service
  cannot be reached, and when the service answers with an empty report it returns
  \<open>success = True\<close> with no issue at all.
\<close>

theorem helger_malformed_counterexample:
  "fromstring (lxml sample_inst) ''<invalid><unclosed>''
     = Inl (XMLSyntaxError ''Premature end of data in tag unclosed line 1'' ''1'') \<and>
   fst (validate (HelgerValidator sample_inst) sample_world ''<invalid><unclosed>'' default_kwargs) =
     Inr \<lparr>validator_name = ''Helger WSDVS'', validator_type = ''helger'', success = False,
          issues = [\<lparr>severity = ERROR, rule_id = Some ''HELGER_CONNECTION'',
                     message = Some ''Validation service error: Connection refused'',
                     location = None, source = Some ''Helger WSDVS''\<rparr>],
          raw_response = None\<rparr> \<and>
   fst (validate (HelgerValidator sample_inst) (sample_world\<lparr>remote := 1\<rparr>) ''<invalid><unclosed>''
          default_kwargs) =
     Inr \<lparr>validator_name = ''Helger WSDVS'', validator_type = ''helger'', success = True,
          issues = [], raw_response = Some []\<rparr>"
  by (simp add: HelgerValidator_def HelgerValidator_validate_def sample_inst_def sample_ET_def
      copy_xslt_def random_xslt_def as_outcome_def
      sample_world_def default_kwargs_def truthy_def helger_issues_def)

text \<open>
  Claim C1, amended: for every input that lxml rejects with \<open>XMLSyntaxError\<close>, each
  local validator (structural and rule-based) returns \<open>success = False\<close> with exactly
  one issue, of severity Error and rule \<open>XML_SYNTAX\<close>, whatever its options, and does
  nothing else: its cache is untouched (no schema or rule set is looked up) and the
  rule-based validator leaves the engine alone (no rule is run).
\<close>

theorem local_validators_syntax_error:
  "fromstring et xml_bytes = Inl (XMLSyntaxError m l) \<Longrightarrow>
   XSDValidator_validate et xsd_dir cache xml_bytes spath detect =
     (Inr \<lparr>validator_name = ''XSD Schema'', validator_type = ''xsd'', success = False,
           issues = [\<lparr>severity = ERROR, rule_id = Some ''XML_SYNTAX'',
                      message = Some (''XML parsing error: '' @ m),
                      location = Some (''line '' @ l), source = Some ''XSD Schema''\<rparr>],
           raw_response = None\<rparr>,
      cache) \<and>
   SchematronValidator_validate et sch_dir cache2 g xml_bytes sch prof =
     (Inr \<lparr>validator_name = ''Schematron'', validator_type = ''schematron'', success = False,
           issues = [\<lparr>severity = ERROR, rule_id = Some ''XML_SYNTAX'',
                      message = Some (''XML parsing error: '' @ m),
                      location = Some (''line '' @ l), source = Some ''Schematron''\<rparr>],
           raw_response = None\<rparr>,
      cache2, g)"
  by (auto simp: XSDValidator_validate_def SchematronValidator_validate_def xsd_result_def
      sch_result_def)

text \<open>
  The malformed document \<open><invalid><unclosed>\<close>.
\<close>

theorem local_validators_syntax_error_witness:
  "fromstring sample_ET ''<invalid><unclosed>''
     = Inl (XMLSyntaxError ''Premature end of data in tag unclosed line 1'' ''1'') \<and>
   XSDValidator_validate sample_ET ''/schemas/xsd'' Map.empty ''<invalid><unclosed>'' None True =
     (Inr \<lparr>validator_name = ''XSD Schema'', validator_type = ''xsd'', success = False,
           issues = [\<lparr>severity = ERROR, rule_id = Some ''XML_SYNTAX'',
                      message = Some ''XML parsing error: Premature end of data in tag unclosed line 1'',
                      location = Some ''line 1'', source = Some ''XSD Schema''\<rparr>],
           raw_response = None\<rparr>,
      Map.empty) \<and>
   SchematronValidator_validate sample_ET ''/schemas/schematron'' Map.empty 0
       ''<invalid><unclosed>'' None None =
     (Inr \<lparr>validator_name = ''Schematron'', validator_type = ''schematron'', success = False,
           issues = [\<lparr>severity = ERROR, rule_id = Some ''XML_SYNTAX'',
                      message = Some ''XML parsing error: Premature end of data in tag unclosed line 1'',
                      location = Some ''line 1'', source = Some ''Schematron''\<rparr>],
           raw_response = None\<rparr>,
      Map.empty, 0)"
proof -
  have a: "fromstring sample_ET ''<invalid><unclosed>''
     = Inl (XMLSyntaxError ''Premature end of data in tag unclosed line 1'' ''1'')"
    by (simp add: sample_ET_def copy_xslt_def random_xslt_def)
  show ?thesis
    using a local_validators_syntax_error[OF a,
        of "''/schemas/xsd''" "Map.empty :: string \<rightharpoonup> string" None True
           "''/schemas/schematron''" "Map.empty :: string \<rightharpoonup> string" 0 None None]
    by simp
qed

end
